theory Spec2Isabelle
  imports
    Complex_Main
    "HOL-Library.AList"
    "HOL-Library.Char_ord"
    "HOL-Library.List_Lexorder"
    "HOL-Library.Multiset"
    "HOL-Library.Product_Lexorder"
begin

section \<open>A REST facade over a document store (app.js)\<close>

text \<open>
  The program is an Express application in front of a MongoDB database. Its own code is
  the routing table and the route handlers of \<^verbatim>\<open>app.js\<close>; they are embedded below, handler
  by handler, in the order of the file. The two other source files are versions of the
  same file; where they differ in a route that a statement below is about, the other
  handler is embedded next to the one of \<^verbatim>\<open>app.js\<close>.

  The two libraries the handlers call are part of the embedding as far as the handlers
  use them:
  \<^item> the document store: a collection is the list of its documents in insertion order, a
    document is a list of fields, and the driver calls \<^verbatim>\<open>find\<close>, \<^verbatim>\<open>findOne\<close>, \<^verbatim>\<open>insertOne\<close>,
    \<^verbatim>\<open>updateOne\<close> and \<^verbatim>\<open>deleteOne\<close> are functions on that state which return an error or a
    result. The handlers await the promises of the driver and, in one route, pass it a
    callback; the driver is taken to be one that serves both forms (version 4 of the
    Node.js driver), and its results and its identifiers are those of that version;
  \<^item> the router: the layers of the application are tried in the order of registration,
    a handler that answers ends the request, and \<^verbatim>\<open>next(error)\<close> passes over every layer
    that is not an error-handling middleware of four arguments.

  A request is taken after the global middleware (CORS, logging, the JSON body parser and
  the static files): it has one of the four verbs the routes register, the segments of
  its decoded path, written in the letter case of the route patterns, the query parameter
  \<^verbatim>\<open>q\<close>, and the parsed body, a JSON object. Strings are byte strings, and the case of
  letters is that of ASCII. A number of JavaScript is a binary floating-point number of
  64 bits; a finite one is kept as the rational it denotes, and a number read from text
  is rounded to the nearest such number. A number in a parsed body or in a stored
  document is the exact value it has there.
\<close>

subsection \<open>Values, documents and errors\<close>

datatype oid = Oid string

datatype json =
    JNull
  | JBool bool
  | JNum rat
  | JStr string
  | JArr "json list"
  | JObj "(string \<times> json) list"
  | JOid oid

type_synonym doc = "(string \<times> json) list"

text \<open>Exceptions by their class, each with its message.\<close>

datatype js_error =
    Error string
  | TypeError string
  | SyntaxError string
  | BSONTypeError string
  | MongoError string

fun message :: "js_error \<Rightarrow> string" where
  "message (Error m) = m"
| "message (TypeError m) = m"
| "message (SyntaxError m) = m"
| "message (BSONTypeError m) = m"
| "message (MongoError m) = m"

text \<open>
  A property read \<^verbatim>\<open>o.k\<close> is \<open>map_of o k\<close>, with \<open>None\<close> for \<^verbatim>\<open>undefined\<close>. \<open>truthy\<close> is
  JavaScript's conversion to a boolean, \<open>isArray\<close> is \<^verbatim>\<open>Array.isArray\<close>.
\<close>

fun truthy :: "json option \<Rightarrow> bool" where
  "truthy None = False"
| "truthy (Some JNull) = False"
| "truthy (Some (JBool b)) = b"
| "truthy (Some (JNum n)) = (n \<noteq> 0)"
| "truthy (Some (JStr s)) = (s \<noteq> [])"
| "truthy (Some (JArr xs)) = True"
| "truthy (Some (JObj fs)) = True"
| "truthy (Some (JOid i)) = True"

fun isArray :: "json option \<Rightarrow> bool" where
  "isArray (Some (JArr xs)) = True"
| "isArray v = False"

subsection \<open>Characters\<close>

definition is_digit :: "char \<Rightarrow> bool" where
  "is_digit c = (c \<in> set ''0123456789'')"

definition is_hex :: "char \<Rightarrow> bool" where
  "is_hex c = (c \<in> set ''0123456789abcdefABCDEF'')"

definition is_space :: "char \<Rightarrow> bool" where
  "is_space c = (c \<in> {CHR '' '', CHR 0x09, CHR 0x0A, CHR 0x0B, CHR 0x0C, CHR 0x0D})"

definition lower :: "char \<Rightarrow> char" where
  "lower c = (let n = (of_char c :: nat) in if 65 \<le> n \<and> n \<le> 90 then char_of (n + 32) else c)"

definition digit_val :: "char \<Rightarrow> int" where
  "digit_val c = of_char c - 48"

definition digits_val :: "string \<Rightarrow> int" where
  "digits_val ds = foldl (\<lambda>a c. 10 * a + digit_val c) 0 ds"

subsection \<open>Object identifiers\<close>

text \<open>
  An identifier is twelve bytes; it is kept here as the twenty-four lower-case hexadecimal
  digits that \<open>toHexString\<close> gives, which is also the form in which an identifier is
  written into a JSON response. The driver generates the identifiers of new documents;
  \<open>hex24\<close> of a counter stands for the generated value.
\<close>

definition hex_digit :: "nat \<Rightarrow> char" where
  "hex_digit k = ''0123456789abcdef'' ! (k mod 16)"

fun hex_digits :: "nat \<Rightarrow> nat \<Rightarrow> string" where
  "hex_digits 0 n = []"
| "hex_digits (Suc k) n = hex_digits k (n div 16) @ [hex_digit n]"

definition hex24 :: "nat \<Rightarrow> string" where
  "hex24 n = hex_digits 24 n"

fun toHexString :: "oid \<Rightarrow> string" where
  "toHexString (Oid h) = h"

text \<open>
  \<^verbatim>\<open>new ObjectId(s)\<close> on a string: a string of length twelve that is twelve bytes is the
  identifier itself, a string of twenty-four hexadecimal characters is its hexadecimal
  form, in either case of the letters, and the constructor throws on every other string.
  The length of a string in JavaScript is the number of its UTF-16 code units: in the
  bytes of UTF-8, one for every byte that begins a character and one more for a
  character of four bytes.
\<close>

definition is_ascii :: "char \<Rightarrow> bool" where
  "is_ascii c = ((of_char c :: nat) < 128)"

definition utf16_length :: "string \<Rightarrow> nat" where
  "utf16_length s =
     length (filter (\<lambda>c. (of_char c :: nat) < 128 \<or> 192 \<le> (of_char c :: nat)) s)
     + length (filter (\<lambda>c. 240 \<le> (of_char c :: nat)) s)"

definition byte_hex :: "char \<Rightarrow> string" where
  "byte_hex c = [hex_digit (of_char c div 16), hex_digit (of_char c)]"

definition invalid_id_msg :: string where
  "invalid_id_msg =
     ''Argument passed in must be a string of 12 bytes or a string of 24 hex characters or an integer''"

definition ObjectId :: "string \<Rightarrow> js_error + oid" where
  "ObjectId s =
     (if utf16_length s = 12 then
        (if length s = 12 then Inr (Oid (concat (map byte_hex s)))
         else Inl (BSONTypeError ''Argument passed in must be a string of 12 bytes''))
      else if utf16_length s = 24 \<and> list_all is_hex s then Inr (Oid (map lower s))
      else Inl (BSONTypeError invalid_id_msg))"

subsection \<open>Numbers read from text\<close>

text \<open>
  The value of a decimal numeral is rounded to the nearest floating-point number, a tie
  to the one with an even significand: 53 binary digits, the exponents from \<open>- 1022\<close> to
  \<open>1023\<close>, smaller numbers in steps of \<open>pow2 (- 1074)\<close>, and infinity from \<open>pow2 1024\<close>
  on. \<open>bit_length\<close> is the number of binary digits of a positive integer.
\<close>

datatype jsnum = NaN | Fin rat | PosInf | NegInf

definition pow2 :: "int \<Rightarrow> rat" where
  "pow2 e = (if 0 \<le> e then 2 ^ nat e else 1 / 2 ^ nat (- e))"

function bit_length :: "int \<Rightarrow> nat" where
  "bit_length n = (if n \<le> 0 then 0 else Suc (bit_length (n div 2)))"
  by pat_completeness auto
termination
  by (relation "measure nat") auto

definition round_half_even :: "rat \<Rightarrow> int" where
  "round_half_even y =
     (let f = \<lfloor>y\<rfloor>; r = y - of_int f
      in if r < 1 / 2 then f else if 1 / 2 < r then f + 1 else if even f then f else f + 1)"

definition to_double :: "rat \<Rightarrow> jsnum" where
  "to_double x =
     (if x = 0 then Fin 0
      else
        let a = \<bar>x\<bar>;
            e0 = int (bit_length (fst (quotient_of a))) - int (bit_length (snd (quotient_of a)));
            e = (if pow2 e0 \<le> a then e0 else e0 - 1);
            ulp = pow2 (max e (- 1022) - 52);
            r = of_int (round_half_even (a / ulp)) * ulp
        in if pow2 1024 \<le> r then (if x < 0 then NegInf else PosInf)
           else Fin (if x < 0 then - r else r))"

text \<open>
  \<^verbatim>\<open>parseInt(s, 10)\<close>: leading white space, a sign, then the longest run of decimal
  digits; without a digit the result is \<^verbatim>\<open>NaN\<close>.
\<close>

definition parseInt :: "string \<Rightarrow> jsnum" where
  "parseInt s =
     (let t = dropWhile is_space s;
          neg = (take 1 t = ''-'');
          u = (if take 1 t = ''-'' \<or> take 1 t = ''+'' then drop 1 t else t);
          ds = takeWhile is_digit u
      in if ds = [] then NaN
         else to_double (of_int (if neg then - digits_val ds else digits_val ds)))"

text \<open>
  \<^verbatim>\<open>parseFloat(s)\<close>: leading white space, a sign, then \<^verbatim>\<open>Infinity\<close> or the longest prefix
  that is a decimal literal (digits, a fraction, an exponent).
\<close>

definition pow10 :: "int \<Rightarrow> rat" where
  "pow10 e = (if 0 \<le> e then 10 ^ nat e else 1 / 10 ^ nat (- e))"

definition exponent :: "string \<Rightarrow> int" where
  "exponent r =
     (case r of
        [] \<Rightarrow> 0
      | c # r1 \<Rightarrow>
          if c = CHR ''e'' \<or> c = CHR ''E'' then
            (case r1 of
               [] \<Rightarrow> 0
             | g # r2 \<Rightarrow>
                 if g = CHR ''-'' then - digits_val (takeWhile is_digit r2)
                 else if g = CHR ''+'' then digits_val (takeWhile is_digit r2)
                 else digits_val (takeWhile is_digit r1))
          else 0)"

definition parseFloat :: "string \<Rightarrow> jsnum" where
  "parseFloat s =
     (let t = dropWhile is_space s;
          neg = (take 1 t = ''-'');
          u = (if take 1 t = ''-'' \<or> take 1 t = ''+'' then drop 1 t else t)
      in if take 8 u = ''Infinity'' then (if neg then NegInf else PosInf)
         else
           let ip = takeWhile is_digit u;
               r1 = dropWhile is_digit u;
               fp = (case r1 of [] \<Rightarrow> [] | c # r \<Rightarrow> if c = CHR ''.'' then takeWhile is_digit r else []);
               r2 = (case r1 of [] \<Rightarrow> [] | c # r \<Rightarrow> if c = CHR ''.'' then dropWhile is_digit r else r1);
               m = of_int (digits_val ip) + of_int (digits_val fp) / 10 ^ length fp
           in if ip = [] \<and> fp = [] then NaN
              else to_double ((if neg then - m else m) * pow10 (exponent r2)))"

subsection \<open>The document store\<close>

text \<open>
  The handle \<^verbatim>\<open>db\<close>: the collections by name (a collection that was never written to is
  empty), the failure every call meets while the connection is lost, and the counter
  behind the identifiers the driver generates.
\<close>

record db_handle =
  colls :: "string \<Rightarrow> doc list"
  outage :: "js_error option"
  pk_counter :: nat

text \<open>
  The calls of the store are embedded for the requests that name top-level fields. What
  the libraries do beyond that is a parameter \<open>E\<close> of the embedding, with one component
  for each part that is left open:
  \<^item> \<open>regexp\<close>: the regular expressions beyond literal characters and the dot: the
    exception for an ill-formed pattern, or the texts the pattern matches;
  \<^item> \<open>update_paths\<close>: \<^verbatim>\<open>updateOne\<close> with a body in which a key is not the name of a
    top-level field (a dotted path into embedded documents and arrays, an operator, the
    empty key): the exception, or the count of matched documents and the collection
    after the update;
  \<^item> \<open>sort_paths\<close>: the sorted list for a sort field that is not such a name: the
    exception, or the documents in their order;
  \<^item> \<open>tie_rank\<close>: the order the store gives to documents that the order on values below
    does not tell apart;
  \<^item> \<open>odd_limit\<close>: the documents returned, of the sorted ones, for a limit that is
    negative, not whole, or not a finite number.
\<close>

record engine =
  regexp :: "string \<Rightarrow> js_error + (string \<Rightarrow> bool)"
  update_paths :: "doc \<Rightarrow> oid \<Rightarrow> doc list \<Rightarrow> js_error + (nat \<times> doc list)"
  sort_paths :: "string \<Rightarrow> int \<Rightarrow> doc list \<Rightarrow> js_error + doc list"
  tie_rank :: "string \<Rightarrow> int \<Rightarrow> doc \<Rightarrow> int"
  odd_limit :: "jsnum \<Rightarrow> doc list \<Rightarrow> js_error + doc list"

text \<open>
  The name of a top-level field, as the update and the sort read a key: not empty, no
  dot, which would make it a path, no dollar sign in front, which would make it an
  operator, and no null character.
\<close>

definition plain_name :: "string \<Rightarrow> bool" where
  "plain_name k = (k \<noteq> [] \<and> take 1 k \<noteq> ''$'' \<and> CHR ''.'' \<notin> set k \<and> CHR 0x00 \<notin> set k)"

text \<open>
  \<^verbatim>\<open>db.collection(name)\<close> checks the name and throws on the empty name, on two dots in a
  row, on a dollar sign (but for the names of the system), on a dot at either end, and on
  a null character.
\<close>

fun contains :: "string \<Rightarrow> string \<Rightarrow> bool" where
  "contains p [] = (p = [])"
| "contains p (c # t) = (take (length p) (c # t) = p \<or> contains p t)"

definition checkCollectionName :: "string \<Rightarrow> js_error option" where
  "checkCollectionName n =
     (if n = [] \<or> contains ''..'' n
      then Some (MongoError ''Collection names cannot be empty'')
      else if CHR ''$'' \<in> set n \<and> \<not> (take 4 n = ''$cmd'' \<or> contains ''oplog.$main'' n)
      then Some (MongoError (''Collection names must not contain '' @ [CHR 0x27] @ ''$'' @ [CHR 0x27]))
      else if take 1 n = ''.'' \<or> take 1 (rev n) = ''.''
      then Some (MongoError (''Collection names must not start or end with '' @ [CHR 0x27] @ ''.'' @ [CHR 0x27]))
      else if CHR 0x00 \<in> set n
      then Some (MongoError ''Collection names cannot contain a null character'')
      else None)"

definition has_id :: "json \<Rightarrow> doc \<Rightarrow> bool" where
  "has_id v d = (map_of d ''_id'' = Some v)"

definition createPk :: "db_handle \<Rightarrow> oid" where
  "createPk h = Oid (hex24 (pk_counter h))"

text \<open>\<^verbatim>\<open>find({}).toArray()\<close>: every document, in the order of insertion.\<close>

definition find_all :: "db_handle \<Rightarrow> string \<Rightarrow> js_error + doc list" where
  "find_all h n = (case outage h of Some e \<Rightarrow> Inl e | None \<Rightarrow> Inr (colls h n))"

text \<open>\<^verbatim>\<open>findOne({_id: i})\<close>: the first document with that identifier, or \<^verbatim>\<open>null\<close>.\<close>

definition findOne :: "db_handle \<Rightarrow> string \<Rightarrow> oid \<Rightarrow> js_error + doc option" where
  "findOne h n i =
     (case outage h of Some e \<Rightarrow> Inl e
      | None \<Rightarrow> Inr (find (has_id (JOid i)) (colls h n)))"

text \<open>
  \<^verbatim>\<open>insertOne(d)\<close>: the driver gives the document a generated identifier when its \<^verbatim>\<open>_id\<close>
  is absent or \<^verbatim>\<open>null\<close> and keeps the document's own otherwise; the store refuses an array
  as identifier and an identifier the collection already has. The result is the
  identifier of the inserted document.
\<close>

definition own_id :: "doc \<Rightarrow> json option" where
  "own_id d = (case map_of d ''_id'' of None \<Rightarrow> None | Some JNull \<Rightarrow> None | Some v \<Rightarrow> Some v)"

definition insertOne :: "db_handle \<Rightarrow> string \<Rightarrow> doc \<Rightarrow> js_error + (json \<times> db_handle)" where
  "insertOne h n d =
     (case outage h of Some e \<Rightarrow> Inl e
      | None \<Rightarrow>
          let v = (case own_id d of None \<Rightarrow> JOid (createPk h) | Some x \<Rightarrow> x);
              k = (case own_id d of None \<Rightarrow> Suc (pk_counter h) | Some x \<Rightarrow> pk_counter h)
          in if isArray (Some v) then Inl (MongoError ''The _id value cannot be of type array'')
             else if list_ex (has_id v) (colls h n) then Inl (MongoError ''E11000 duplicate key error'')
             else Inr (v, h\<lparr>colls := (colls h)(n := colls h n @ [AList.update ''_id'' v d]),
                            pk_counter := k\<rparr>))"

text \<open>\<^verbatim>\<open>deleteOne({_id: i})\<close>: removes the first document with that identifier; the result
  is \<^verbatim>\<open>deletedCount\<close>.\<close>

fun remove_first :: "('a \<Rightarrow> bool) \<Rightarrow> 'a list \<Rightarrow> 'a list" where
  "remove_first P [] = []"
| "remove_first P (x # xs) = (if P x then xs else x # remove_first P xs)"

definition deleteOne :: "db_handle \<Rightarrow> string \<Rightarrow> oid \<Rightarrow> js_error + (nat \<times> db_handle)" where
  "deleteOne h n i =
     (case outage h of Some e \<Rightarrow> Inl e
      | None \<Rightarrow>
          if list_ex (has_id (JOid i)) (colls h n)
          then Inr (1, h\<lparr>colls := (colls h)(n := remove_first (has_id (JOid i)) (colls h n))\<rparr>)
          else Inr (0, h))"

text \<open>
  \<^verbatim>\<open>updateOne({_id: i}, {$set: b})\<close>, for a body \<open>b\<close> whose keys are names of top-level
  fields: on the first document with that identifier, every field of \<open>b\<close> is set to the
  value \<open>b\<close> gives it, and no field when \<open>b\<close> is empty; the identifier of a document
  cannot be changed. The result is \<^verbatim>\<open>matchedCount\<close>.
\<close>

fun set_fields :: "doc \<Rightarrow> doc \<Rightarrow> doc" where
  "set_fields [] d = d"
| "set_fields ((k, v) # b) d = AList.update k v (set_fields b d)"

fun update_first :: "('a \<Rightarrow> bool) \<Rightarrow> ('a \<Rightarrow> 'a) \<Rightarrow> 'a list \<Rightarrow> 'a list" where
  "update_first P f [] = []"
| "update_first P f (x # xs) = (if P x then f x # xs else x # update_first P f xs)"

definition keeps_id :: "doc \<Rightarrow> oid \<Rightarrow> bool" where
  "keeps_id b i = (case map_of b ''_id'' of None \<Rightarrow> True | Some v \<Rightarrow> v = JOid i)"

definition immutable_id_msg :: string where
  "immutable_id_msg =
     ''Performing an update on the path '' @ [CHR 0x27] @ ''_id'' @ [CHR 0x27]
       @ '' would modify the immutable field '' @ [CHR 0x27] @ ''_id'' @ [CHR 0x27]"

definition updateOne ::
  "engine \<Rightarrow> db_handle \<Rightarrow> string \<Rightarrow> oid \<Rightarrow> doc \<Rightarrow> js_error + (nat \<times> db_handle)" where
  "updateOne E h n i b =
     (case outage h of Some e \<Rightarrow> Inl e
      | None \<Rightarrow>
          if list_all plain_name (map fst b)
          then
            (if list_ex (has_id (JOid i)) (colls h n)
             then (if keeps_id b i
                   then Inr (1, h\<lparr>colls := (colls h)(n := update_first (has_id (JOid i)) (set_fields b) (colls h n))\<rparr>)
                   else Inl (MongoError immutable_id_msg))
             else Inr (0, h))
          else
            (case update_paths E b i (colls h n) of
               Inl e \<Rightarrow> Inl e
             | Inr (c, ds) \<Rightarrow> Inr (c, h\<lparr>colls := (colls h)(n := ds)\<rparr>)))"

text \<open>
  \<^verbatim>\<open>find({}, {limit: l, sort: [[f, dir]]})\<close>, for the name \<open>f\<close> of a top-level field. The
  documents are ordered by the value of field \<open>f\<close>: values of different types by the rank
  of the type, numbers by value, strings by their bytes, an absent field as \<^verbatim>\<open>null\<close>, an
  array by its least element (ascending) or its greatest (descending), the empty array
  first. Documents that this order does not tell apart (equal values, embedded documents,
  the arrays inside an array) are in the order of the store. A whole limit that is not
  negative is sent as it is; a limit of zero is no limit.
\<close>

fun scalar_key :: "json \<Rightarrow> nat \<times> rat \<times> string" where
  "scalar_key JNull = (1, 0, [])"
| "scalar_key (JNum x) = (2, x, [])"
| "scalar_key (JStr t) = (3, 0, t)"
| "scalar_key (JObj fs) = (4, 0, [])"
| "scalar_key (JArr xs) = (5, 0, [])"
| "scalar_key (JOid i) = (7, 0, toHexString i)"
| "scalar_key (JBool b) = (8, of_bool b, [])"

fun bson_key :: "int \<Rightarrow> json option \<Rightarrow> nat \<times> rat \<times> string" where
  "bson_key dir None = scalar_key JNull"
| "bson_key dir (Some (JArr [])) = (0, 0, [])"
| "bson_key dir (Some (JArr (x # xs))) =
     (if dir < 0 then fold max (map scalar_key xs) (scalar_key x)
      else fold min (map scalar_key xs) (scalar_key x))"
| "bson_key dir (Some v) = scalar_key v"

definition sort_docs :: "engine \<Rightarrow> string \<Rightarrow> int \<Rightarrow> doc list \<Rightarrow> doc list" where
  "sort_docs E f dir ds =
     (if dir < 0 then rev (sort_key (\<lambda>d. (bson_key dir (map_of d f), tie_rank E f dir d)) ds)
      else sort_key (\<lambda>d. (bson_key dir (map_of d f), tie_rank E f dir d)) ds)"

definition sort_by :: "engine \<Rightarrow> string \<Rightarrow> int \<Rightarrow> doc list \<Rightarrow> js_error + doc list" where
  "sort_by E f dir ds = (if plain_name f then Inr (sort_docs E f dir ds) else sort_paths E f dir ds)"

definition is_whole :: "rat \<Rightarrow> bool" where
  "is_whole l = (of_int \<lfloor>l\<rfloor> = l)"

definition apply_limit :: "engine \<Rightarrow> jsnum \<Rightarrow> doc list \<Rightarrow> js_error + doc list" where
  "apply_limit E limit ds =
     (case limit of
        Fin l \<Rightarrow>
          if 0 \<le> l \<and> is_whole l then Inr (if l = 0 then ds else take (nat \<lfloor>l\<rfloor>) ds)
          else odd_limit E limit ds
      | NaN \<Rightarrow> odd_limit E limit ds
      | PosInf \<Rightarrow> odd_limit E limit ds
      | NegInf \<Rightarrow> odd_limit E limit ds)"

definition find_sorted ::
  "engine \<Rightarrow> db_handle \<Rightarrow> string \<Rightarrow> jsnum \<Rightarrow> string \<Rightarrow> int \<Rightarrow> js_error + doc list" where
  "find_sorted E h n limit f dir =
     (case outage h of Some e \<Rightarrow> Inl e
      | None \<Rightarrow>
          (case sort_by E f dir (colls h n) of
             Inl e \<Rightarrow> Inl e
           | Inr ds \<Rightarrow> apply_limit E limit ds))"

text \<open>
  The filters of the search route: a regular expression on a field matches a string
  value, or an array with a string element that matches; a number on a field matches
  an equal number, or an array with an element equal to it.
\<close>

datatype cond = Rx string "string \<Rightarrow> bool" | EqNum string jsnum

datatype query = All | Or "cond list"

fun rx_value :: "(string \<Rightarrow> bool) \<Rightarrow> json \<Rightarrow> bool" where
  "rx_value m (JStr t) = m t"
| "rx_value m v = False"

fun num_value :: "jsnum \<Rightarrow> json \<Rightarrow> bool" where
  "num_value (Fin x) (JNum y) = (y = x)"
| "num_value n v = False"

fun elements :: "json \<Rightarrow> json list" where
  "elements (JArr xs) = xs"
| "elements v = []"

fun holds :: "cond \<Rightarrow> doc \<Rightarrow> bool" where
  "holds (Rx f m) d =
     (case map_of d f of None \<Rightarrow> False
      | Some v \<Rightarrow> rx_value m v \<or> list_ex (rx_value m) (elements v))"
| "holds (EqNum f x) d =
     (case map_of d f of None \<Rightarrow> False
      | Some v \<Rightarrow> num_value x v \<or> list_ex (num_value x) (elements v))"

fun selects :: "query \<Rightarrow> doc \<Rightarrow> bool" where
  "selects All d = True"
| "selects (Or cs) d = list_ex (\<lambda>c. holds c d) cs"

definition find_query :: "db_handle \<Rightarrow> string \<Rightarrow> query \<Rightarrow> js_error + doc list" where
  "find_query h n q =
     (case outage h of Some e \<Rightarrow> Inl e | None \<Rightarrow> Inr (filter (selects q) (colls h n)))"

subsection \<open>Regular expressions\<close>

text \<open>
  \<^verbatim>\<open>new RegExp(p, 'i')\<close>. A pattern without syntax characters stands for itself, and the dot
  for any character but the line feed; letters match in either case, and the pattern may
  match anywhere in the text. Such patterns are matched here. The rest of the pattern
  language is the component \<open>regexp\<close> of the parameter.
\<close>

definition is_syntax_char :: "char \<Rightarrow> bool" where
  "is_syntax_char c = (c \<in> set ''^$.*+?()[]{}|'' \<or> c = CHR 0x5C)"

datatype atom = Lit char | AnyChar

definition atoms :: "string \<Rightarrow> atom list" where
  "atoms p = map (\<lambda>c. if c = CHR ''.'' then AnyChar else Lit c) p"

fun atom_ok :: "atom \<Rightarrow> char \<Rightarrow> bool" where
  "atom_ok AnyChar c = (c \<noteq> CHR 0x0A)"
| "atom_ok (Lit x) c = (lower x = lower c)"

fun match_here :: "atom list \<Rightarrow> string \<Rightarrow> bool" where
  "match_here [] t = True"
| "match_here (a # as) [] = False"
| "match_here (a # as) (c # t) = (atom_ok a c \<and> match_here as t)"

fun match_anywhere :: "atom list \<Rightarrow> string \<Rightarrow> bool" where
  "match_anywhere as [] = match_here as []"
| "match_anywhere as (c # t) = (match_here as (c # t) \<or> match_anywhere as t)"

definition RegExp_i :: "engine \<Rightarrow> string \<Rightarrow> js_error + (string \<Rightarrow> bool)" where
  "RegExp_i E p =
     (if list_all (\<lambda>c. c = CHR ''.'' \<or> \<not> is_syntax_char c) p
      then Inr (match_anywhere (atoms p))
      else regexp E p)"

subsection \<open>Requests, responses and the state of the server\<close>

datatype meth = GET | POST | PUT | DELETE

record request =
  meth :: meth
  path :: "string list"
  query_q :: "string option"
  body :: doc

text \<open>
  A response body is a text, a JSON value (an identifier in it is sent as its hexadecimal
  string), or one of the two pages of the framework's final handler: the page for an
  error no middleware handled, and the page for a request no layer answered.
\<close>

datatype payload = Text string | Json json | ErrorPage js_error | NotFoundPage

record response =
  status :: nat
  payload :: payload

text \<open>The global \<^verbatim>\<open>db\<close>: \<open>None\<close> until \<^verbatim>\<open>connectToDatabase\<close> has assigned it.\<close>

record server_state =
  db :: "db_handle option"

text \<open>A handler either sends a response, leaving a state, or calls \<^verbatim>\<open>next(error)\<close>.\<close>

datatype outcome = Sent response server_state | NextErr js_error

definition ok :: "json \<Rightarrow> response" where
  "ok j = \<lparr>status = 200, payload = Json j\<rparr>"

definition msg :: "string \<Rightarrow> json" where
  "msg t = JObj [(''msg'', JStr t)]"

definition undefined_read_msg :: "string \<Rightarrow> string" where
  "undefined_read_msg p =
     ''Cannot read properties of undefined (reading '' @ [CHR 0x27] @ p @ [CHR 0x27] @ '')''"

subsection \<open>The parameter callback and the route handlers\<close>

text \<open>
  \<^verbatim>\<open>app.param("collectionName", ...)\<close>: binds \<^verbatim>\<open>req.collection\<close>, or fails: with its own
  error while \<^verbatim>\<open>db\<close> is unset, and with the exception of \<^verbatim>\<open>db.collection\<close> on a name the
  driver refuses.
\<close>

definition param_collectionName :: "server_state \<Rightarrow> string \<Rightarrow> js_error + (db_handle \<times> string)" where
  "param_collectionName s collectionName =
     (case db s of
        None \<Rightarrow> Inl (Error ''Database not initialized'')
      | Some h \<Rightarrow>
          (case checkCollectionName collectionName of
             Some e \<Rightarrow> Inl e
           | None \<Rightarrow> Inr (h, collectionName)))"

text \<open>\<^verbatim>\<open>GET /\<close>\<close>

definition root_handler :: "server_state \<Rightarrow> outcome" where
  "root_handler s =
     Sent \<lparr>status = 200,
           payload = Text ''Welcome! Please select a collection, e.g., /collections/lessons''\<rparr> s"

text \<open>\<^verbatim>\<open>GET /collections/:collectionName\<close>\<close>

definition list_handler :: "server_state \<Rightarrow> db_handle \<Rightarrow> string \<Rightarrow> outcome" where
  "list_handler s h n =
     (case find_all h n of
        Inl e \<Rightarrow> NextErr e
      | Inr results \<Rightarrow> Sent (ok (JArr (map JObj results))) s)"

text \<open>\<^verbatim>\<open>GET /collections/:collectionName/:id\<close>\<close>

definition get_handler :: "server_state \<Rightarrow> db_handle \<Rightarrow> string \<Rightarrow> string \<Rightarrow> outcome" where
  "get_handler s h n id' =
     (case ObjectId id' of
        Inl e \<Rightarrow> NextErr e
      | Inr i \<Rightarrow>
          (case findOne h n i of
             Inl e \<Rightarrow> NextErr e
           | Inr None \<Rightarrow> Sent \<lparr>status = 404, payload = Json (msg ''Document not found'')\<rparr> s
           | Inr (Some d) \<Rightarrow> Sent (ok (JObj d)) s))"

text \<open>\<^verbatim>\<open>POST /collections/:collectionName\<close>\<close>

definition insert_handler :: "server_state \<Rightarrow> db_handle \<Rightarrow> string \<Rightarrow> doc \<Rightarrow> outcome" where
  "insert_handler s h n b =
     (case insertOne h n b of
        Inl e \<Rightarrow> NextErr e
      | Inr (v, h') \<Rightarrow>
          Sent (ok (JObj [(''acknowledged'', JBool True), (''insertedId'', v)])) (s\<lparr>db := Some h'\<rparr>))"

text \<open>\<^verbatim>\<open>DELETE /collections/:collectionName/:id\<close>\<close>

definition delete_handler :: "server_state \<Rightarrow> db_handle \<Rightarrow> string \<Rightarrow> string \<Rightarrow> outcome" where
  "delete_handler s h n id' =
     (case ObjectId id' of
        Inl e \<Rightarrow> NextErr e
      | Inr i \<Rightarrow>
          (case deleteOne h n i of
             Inl e \<Rightarrow> NextErr e
           | Inr (deletedCount, h') \<Rightarrow>
               Sent (ok (if deletedCount = 1 then msg ''success'' else msg ''error''))
                 (s\<lparr>db := Some h'\<rparr>)))"

text \<open>\<^verbatim>\<open>PUT /collections/:collectionName/:id\<close>\<close>

definition update_handler ::
  "engine \<Rightarrow> server_state \<Rightarrow> db_handle \<Rightarrow> string \<Rightarrow> string \<Rightarrow> doc \<Rightarrow> outcome" where
  "update_handler E s h n id' b =
     (case ObjectId id' of
        Inl e \<Rightarrow> NextErr e
      | Inr i \<Rightarrow>
          (case updateOne E h n i b of
             Inl e \<Rightarrow> NextErr e
           | Inr (matchedCount, h') \<Rightarrow>
               Sent (ok (if matchedCount = 1 then msg ''success'' else msg ''error''))
                 (s\<lparr>db := Some h'\<rparr>)))"

text \<open>
  \<^verbatim>\<open>POST /collections/orders\<close>. The handler uses the global \<^verbatim>\<open>db\<close>, and its own
  \<^verbatim>\<open>catch\<close> answers every exception, also the one of reading \<^verbatim>\<open>db.collection\<close> while
  \<^verbatim>\<open>db\<close> is unset.
\<close>

definition order_failed :: response where
  "order_failed =
     \<lparr>status = 500,
      payload = Json (msg ''An error occurred while processing your order. Please try again.'')\<rparr>"

definition order_handler :: "server_state \<Rightarrow> doc \<Rightarrow> outcome" where
  "order_handler s order =
     (if \<not> truthy (map_of order ''name'') \<or> \<not> truthy (map_of order ''email'')
         \<or> \<not> truthy (map_of order ''lessonIDs'') \<or> \<not> isArray (map_of order ''lessonIDs'')
      then Sent \<lparr>status = 400,
                 payload = Json (msg ''Invalid order data. Ensure all required fields are provided.'')\<rparr> s
      else
        (case db s of
           None \<Rightarrow> Sent order_failed s
         | Some h \<Rightarrow>
             (case insertOne h ''orders'' order of
                Inl e \<Rightarrow> Sent order_failed s
              | Inr (insertedId, h') \<Rightarrow>
                  Sent \<lparr>status = 201,
                        payload = Json (JObj [(''msg'', JStr ''Order created successfully''),
                                              (''orderID'', insertedId)])\<rparr>
                    (s\<lparr>db := Some h'\<rparr>))))"

text \<open>
  The other version of the file that has this route (the second of the three source
  files) checks every field of an order, inserts the seven fields only, and passes an
  exception on with \<^verbatim>\<open>next(error)\<close>.
\<close>

definition order_handler_strict :: "server_state \<Rightarrow> doc \<Rightarrow> outcome" where
  "order_handler_strict s b =
     (if \<not> truthy (map_of b ''name'') \<or> \<not> truthy (map_of b ''email'')
         \<or> \<not> truthy (map_of b ''address'') \<or> \<not> truthy (map_of b ''city'')
         \<or> \<not> truthy (map_of b ''postcode'') \<or> \<not> truthy (map_of b ''phone'')
         \<or> \<not> isArray (map_of b ''lessonIDs'')
      then Sent \<lparr>status = 400, payload = Json (JObj [(''error'', JStr ''Invalid order data'')])\<rparr> s
      else
        (case db s of
           None \<Rightarrow> NextErr (TypeError (undefined_read_msg ''collection''))
         | Some h \<Rightarrow>
             (case insertOne h ''orders''
                     (map (\<lambda>k. (k, case map_of b k of None \<Rightarrow> JNull | Some v \<Rightarrow> v))
                        [''name'', ''email'', ''address'', ''city'', ''postcode'', ''phone'', ''lessonIDs''])
              of
                Inl e \<Rightarrow> NextErr e
              | Inr (insertedId, h') \<Rightarrow>
                  Sent \<lparr>status = 201,
                        payload = Json (JObj [(''message'', JStr ''Order created successfully''),
                                              (''_id'', insertedId)])\<rparr>
                    (s\<lparr>db := Some h'\<rparr>))))"

text \<open>\<^verbatim>\<open>GET /collections/:collectionName/:max/:sortAspect/:sortAscDesc\<close>\<close>

definition sorted_handler ::
  "engine \<Rightarrow> server_state \<Rightarrow> db_handle \<Rightarrow> string \<Rightarrow> string \<Rightarrow> string \<Rightarrow> string \<Rightarrow> outcome" where
  "sorted_handler E s h n maxp sortAspect sortAscDesc =
     (let max = parseInt maxp;
          sortDirection = (if sortAscDesc = ''desc'' then - 1 else 1)
      in case find_sorted E h n max sortAspect sortDirection of
           Inl err \<Rightarrow> NextErr err
         | Inr results \<Rightarrow> Sent (ok (JArr (map JObj results))) s)"

text \<open>
  \<^verbatim>\<open>GET /search\<close>. \<open>search_try\<close> is the body of the \<^verbatim>\<open>try\<close> block, in its order: the
  regular expression, the conditions, the number, the filter, and the query on the
  collection \<^verbatim>\<open>lessons\<close> of the global \<^verbatim>\<open>db\<close>.
\<close>

definition search_query :: "string \<Rightarrow> (string \<Rightarrow> bool) \<Rightarrow> query" where
  "search_query query regex =
     (let conditions =
            (if query \<noteq> [] then [Rx ''subject'' regex, Rx ''description'' regex, Rx ''location'' regex]
             else [])
            @ (if parseFloat query \<noteq> NaN
               then [EqNum ''price'' (parseFloat query), EqNum ''availablespaces'' (parseFloat query)]
               else [])
      in if conditions \<noteq> [] then Or conditions else All)"

definition search_try :: "engine \<Rightarrow> server_state \<Rightarrow> string option \<Rightarrow> js_error + doc list" where
  "search_try E s q =
     (let query = (case q of None \<Rightarrow> [] | Some t \<Rightarrow> t)
      in case RegExp_i E query of
           Inl e \<Rightarrow> Inl e
         | Inr regex \<Rightarrow>
             (case db s of
                None \<Rightarrow> Inl (TypeError (undefined_read_msg ''collection''))
              | Some h \<Rightarrow> find_query h ''lessons'' (search_query query regex)))"

definition search_handler :: "engine \<Rightarrow> server_state \<Rightarrow> string option \<Rightarrow> outcome" where
  "search_handler E s q =
     (case search_try E s q of
        Inl error \<Rightarrow>
          Sent \<lparr>status = 500, payload = Json (JObj [(''error'', JStr (message error))])\<rparr> s
      | Inr results \<Rightarrow> Sent (ok (JArr (map JObj results))) s)"

text \<open>
  In the other version of the file without an order route (the third source file) the
  search applies the regular expression to all five fields, for every \<^verbatim>\<open>q\<close>, and reads
  no number from \<^verbatim>\<open>q\<close>.
\<close>

definition search_try_regex_only :: "engine \<Rightarrow> server_state \<Rightarrow> string option \<Rightarrow> js_error + doc list" where
  "search_try_regex_only E s q =
     (let query = (case q of None \<Rightarrow> [] | Some t \<Rightarrow> t)
      in case RegExp_i E query of
           Inl e \<Rightarrow> Inl e
         | Inr regex \<Rightarrow>
             (case db s of
                None \<Rightarrow> Inl (TypeError (undefined_read_msg ''collection''))
              | Some h \<Rightarrow>
                  find_query h ''lessons''
                    (Or [Rx ''subject'' regex, Rx ''description'' regex, Rx ''location'' regex,
                         Rx ''price'' regex, Rx ''availablespaces'' regex])))"

text \<open>The last layer, \<^verbatim>\<open>app.use((req, res) => ...)\<close>.\<close>

definition not_found_handler :: "server_state \<Rightarrow> outcome" where
  "not_found_handler s = Sent \<lparr>status = 404, payload = Text ''Error: Resource not found''\<rparr> s"

subsection \<open>The router\<close>

text \<open>
  A route pattern is a list of segments, a word or a named parameter; a parameter takes
  any segment that is not empty. The routes and the final middleware are the layers of
  the application, in the order in which \<^verbatim>\<open>app.js\<close> registers them.
\<close>

datatype seg = Static string | Param string

fun match_path :: "seg list \<Rightarrow> string list \<Rightarrow> (string \<times> string) list option" where
  "match_path [] [] = Some []"
| "match_path (Static w # pat) (x # xs) = (if x = w then match_path pat xs else None)"
| "match_path (Param k # pat) (x # xs) =
     (if x = [] then None
      else (case match_path pat xs of None \<Rightarrow> None | Some ps \<Rightarrow> Some ((k, x) # ps)))"
| "match_path pat xs = None"

datatype handler =
    Root | ListAll | GetById | Insert | Delete | Update | CreateOrder | SortedList | Search
  | NotFound | CreateOrderStrict

datatype layer = Route meth "seg list" handler | Use handler

definition app_stack :: "layer list" where
  "app_stack =
     [Route GET [] Root,
      Route GET [Static ''collections'', Param ''collectionName''] ListAll,
      Route GET [Static ''collections'', Param ''collectionName'', Param ''id''] GetById,
      Route POST [Static ''collections'', Param ''collectionName''] Insert,
      Route DELETE [Static ''collections'', Param ''collectionName'', Param ''id''] Delete,
      Route PUT [Static ''collections'', Param ''collectionName'', Param ''id''] Update,
      Route POST [Static ''collections'', Static ''orders''] CreateOrder,
      Route GET [Static ''collections'', Param ''collectionName'', Param ''max'',
                 Param ''sortAspect'', Param ''sortAscDesc''] SortedList,
      Route GET [Static ''search''] Search,
      Use NotFound]"

text \<open>The layers of that other version: it has no route for deleting or for sorted lists.\<close>

definition strict_stack :: "layer list" where
  "strict_stack =
     [Route GET [] Root,
      Route GET [Static ''collections'', Param ''collectionName''] ListAll,
      Route GET [Static ''collections'', Param ''collectionName'', Param ''id''] GetById,
      Route POST [Static ''collections'', Param ''collectionName''] Insert,
      Route POST [Static ''collections'', Static ''orders''] CreateOrderStrict,
      Route PUT [Static ''collections'', Param ''collectionName'', Param ''id''] Update,
      Route GET [Static ''search''] Search,
      Use NotFound]"

text \<open>
  The parameters of a matched route are processed before its handler runs: the callback
  of \<^verbatim>\<open>collectionName\<close> runs when the pattern has that parameter. \<open>param\<close> reads
  \<^verbatim>\<open>req.params\<close>; a handler only reads parameters of its own route's pattern.
\<close>

definition process_params ::
  "server_state \<Rightarrow> (string \<times> string) list \<Rightarrow> js_error + (db_handle \<times> string) option" where
  "process_params s ps =
     (case map_of ps ''collectionName'' of
        None \<Rightarrow> Inr None
      | Some n \<Rightarrow>
          (case param_collectionName s n of Inl e \<Rightarrow> Inl e | Inr c \<Rightarrow> Inr (Some c)))"

definition param :: "(string \<times> string) list \<Rightarrow> string \<Rightarrow> string" where
  "param ps k = (case map_of ps k of None \<Rightarrow> [] | Some v \<Rightarrow> v)"

text \<open>
  A handler that reads \<^verbatim>\<open>req.collection\<close> on a route that did not bind it would meet
  \<^verbatim>\<open>undefined\<close>; no route of the application is so.
\<close>

definition with_collection ::
  "(db_handle \<times> string) option \<Rightarrow> (db_handle \<Rightarrow> string \<Rightarrow> outcome) \<Rightarrow> outcome" where
  "with_collection c f =
     (case c of
        None \<Rightarrow> NextErr (TypeError (undefined_read_msg ''find''))
      | Some (h, n) \<Rightarrow> f h n)"

fun run_handler ::
  "engine \<Rightarrow> handler \<Rightarrow> server_state \<Rightarrow> request \<Rightarrow> (string \<times> string) list
     \<Rightarrow> (db_handle \<times> string) option \<Rightarrow> outcome" where
  "run_handler E Root s r ps c = root_handler s"
| "run_handler E ListAll s r ps c = with_collection c (list_handler s)"
| "run_handler E GetById s r ps c = with_collection c (\<lambda>h n. get_handler s h n (param ps ''id''))"
| "run_handler E Insert s r ps c = with_collection c (\<lambda>h n. insert_handler s h n (body r))"
| "run_handler E Delete s r ps c = with_collection c (\<lambda>h n. delete_handler s h n (param ps ''id''))"
| "run_handler E Update s r ps c =
     with_collection c (\<lambda>h n. update_handler E s h n (param ps ''id'') (body r))"
| "run_handler E CreateOrder s r ps c = order_handler s (body r)"
| "run_handler E SortedList s r ps c =
     with_collection c (\<lambda>h n. sorted_handler E s h n (param ps ''max'') (param ps ''sortAspect'')
                                  (param ps ''sortAscDesc''))"
| "run_handler E Search s r ps c = search_handler E s (query_q r)"
| "run_handler E NotFound s r ps c = not_found_handler s"
| "run_handler E CreateOrderStrict s r ps c = order_handler_strict s (body r)"

text \<open>
  After \<^verbatim>\<open>next(error)\<close> the router passes over the routes and over every middleware that
  does not take four arguments. The application registers no middleware of four
  arguments, so the error reaches the final handler of the framework, which answers with
  status 500.
\<close>

definition error_page :: "js_error \<Rightarrow> response" where
  "error_page e = \<lparr>status = 500, payload = ErrorPage e\<rparr>"

fun on_error :: "layer list \<Rightarrow> js_error \<Rightarrow> response" where
  "on_error [] e = error_page e"
| "on_error (Route m pat h # ls) e = on_error ls e"
| "on_error (Use h # ls) e = on_error ls e"

text \<open>
  The answer to a request: the response, the state it leaves, and the handlers that
  were run. No handler of the application calls \<^verbatim>\<open>next()\<close> without an error, so a
  request is over with the first layer that takes it.
\<close>

record result =
  resp :: response
  after :: server_state
  ran :: "handler list"

definition finish :: "layer list \<Rightarrow> server_state \<Rightarrow> handler \<Rightarrow> outcome \<Rightarrow> result" where
  "finish ls s h out =
     (case out of
        Sent a s' \<Rightarrow> \<lparr>resp = a, after = s', ran = [h]\<rparr>
      | NextErr e \<Rightarrow> \<lparr>resp = on_error ls e, after = s, ran = [h]\<rparr>)"

fun walk :: "engine \<Rightarrow> layer list \<Rightarrow> server_state \<Rightarrow> request \<Rightarrow> result" where
  "walk E [] s r = \<lparr>resp = \<lparr>status = 404, payload = NotFoundPage\<rparr>, after = s, ran = []\<rparr>"
| "walk E (Use h # ls) s r = finish ls s h (run_handler E h s r [] None)"
| "walk E (Route m pat h # ls) s r =
     (if m = meth r then
        (case match_path pat (path r) of
           None \<Rightarrow> walk E ls s r
         | Some ps \<Rightarrow>
             (case process_params s ps of
                Inl e \<Rightarrow> \<lparr>resp = on_error ls e, after = s, ran = []\<rparr>
              | Inr c \<Rightarrow> finish ls s h (run_handler E h s r ps c)))
      else walk E ls s r)"

definition dispatch :: "engine \<Rightarrow> server_state \<Rightarrow> request \<Rightarrow> result" where
  "dispatch E s r = walk E app_stack s r"

text \<open>
  The layer that takes a request, with the parameters of its pattern, and the exception
  that the parameter callback or the handler of that layer passes to \<^verbatim>\<open>next\<close>, if any.
\<close>

fun first_match :: "layer list \<Rightarrow> request \<Rightarrow> (handler \<times> (string \<times> string) list) option" where
  "first_match [] r = None"
| "first_match (Use h # ls) r = Some (h, [])"
| "first_match (Route m pat h # ls) r =
     (if m = meth r then
        (case match_path pat (path r) of
           None \<Rightarrow> first_match ls r
         | Some ps \<Rightarrow> Some (h, ps))
      else first_match ls r)"

definition forwarded :: "engine \<Rightarrow> server_state \<Rightarrow> request \<Rightarrow> js_error option" where
  "forwarded E s r =
     (case first_match app_stack r of
        None \<Rightarrow> None
      | Some (h, ps) \<Rightarrow>
          (case process_params s ps of
             Inl e \<Rightarrow> Some e
           | Inr c \<Rightarrow>
               (case run_handler E h s r ps c of
                  Sent a s' \<Rightarrow> None
                | NextErr e \<Rightarrow> Some e)))"

subsection \<open>Notions of the specification and example data\<close>




text \<open>
  An engine that refuses whatever it is asked about, and leaves the documents it cannot
  tell apart in the order of insertion.
  A connected store without documents, and the server before the connection is made.
\<close>

definition no_engine :: engine where
  "no_engine =
     \<lparr>regexp = (\<lambda>p. Inl (SyntaxError ''Invalid regular expression'')),
      update_paths = (\<lambda>b i ds. Inl (MongoError ''update refused'')),
      sort_paths = (\<lambda>f dir ds. Inl (MongoError ''sort refused'')),
      tie_rank = (\<lambda>f dir d. 0),
      odd_limit = (\<lambda>l ds. Inl (MongoError ''limit refused''))\<rparr>"

definition empty_db :: db_handle where
  "empty_db = \<lparr>colls = (\<lambda>n. []), outage = None, pk_counter = 0\<rparr>"

definition connected :: "db_handle \<Rightarrow> server_state" where
  "connected h = \<lparr>db = Some h\<rparr>"

definition starting :: server_state where
  "starting = \<lparr>db = None\<rparr>"

definition request :: "meth \<Rightarrow> string list \<Rightarrow> string option \<Rightarrow> doc \<Rightarrow> request" where
  "request m p q b = \<lparr>meth = m, path = p, query_q = q, body = b\<rparr>"

text \<open>A collection of five lessons, and a connected store that has it.\<close>

definition lesson :: "string \<Rightarrow> string \<Rightarrow> string \<Rightarrow> string \<Rightarrow> rat \<Rightarrow> rat \<Rightarrow> doc" where
  "lesson i subject description location price spaces =
     [(''_id'', JOid (Oid i)), (''subject'', JStr subject), (''description'', JStr description),
      (''location'', JStr location), (''price'', JNum price), (''availablespaces'', JNum spaces)]"

definition five_lessons :: "doc list" where
  "five_lessons =
     [lesson ''000000000000000000000001'' ''Math'' ''Algebra for beginners'' ''London'' 100 5,
      lesson ''000000000000000000000002'' ''English'' ''Reading and writing'' ''Oxford'' 80 20,
      lesson ''000000000000000000000003'' ''Music'' ''Piano, grade 2'' ''Bristol'' 90 5,
      lesson ''000000000000000000000004'' ''Art'' ''Drawing'' ''York'' 20 10,
      lesson ''000000000000000000000005'' ''Chess'' ''Openings'' ''Leeds'' 95 3]"

definition lessons_db :: db_handle where
  "lessons_db =
     \<lparr>colls = (\<lambda>n. if n = ''lessons'' then five_lessons else []), outage = None, pk_counter = 6\<rparr>"

text \<open>
  Two orders: one with a name, an e-mail address and two lessons only, and one with the
  address, city, postcode and telephone number as well.
\<close>

definition short_order :: doc where
  "short_order =
     [(''name'', JStr ''A''), (''email'', JStr ''a@b.com''), (''lessonIDs'', JArr [JNum 1, JNum 2])]"

definition full_order :: doc where
  "full_order =
     [(''name'', JStr ''A''), (''email'', JStr ''a@b.com''), (''address'', JStr ''1 High Street''),
      (''city'', JStr ''London''), (''postcode'', JStr ''N1 1AA''), (''phone'', JStr ''0123456789''),
      (''lessonIDs'', JArr [JNum 1, JNum 2])]"

section \<open>Properties\<close>

subsection \<open>Routing\<close>

text \<open>
  An error passed to \<^verbatim>\<open>next\<close> always ends in the error page of the final handler, and each
  form of request reaches the handler of its own route, after the parameter callback.
\<close>

lemma on_error_page: "on_error ls e = error_page e"
  by (induction ls e rule: on_error.induct) simp_all

lemma finish_eq:
  "finish ls s h out =
     (case out of Sent a s' \<Rightarrow> \<lparr>resp = a, after = s', ran = [h]\<rparr>
      | NextErr e \<Rightarrow> \<lparr>resp = error_page e, after = s, ran = [h]\<rparr>)"
  by (simp add: finish_def on_error_page split: outcome.split)

lemma walk_first_match:
  "walk E ls s r =
     (case first_match ls r of
        None \<Rightarrow> \<lparr>resp = \<lparr>status = 404, payload = NotFoundPage\<rparr>, after = s, ran = []\<rparr>
      | Some (h, ps) \<Rightarrow>
          (case process_params s ps of
             Inl e \<Rightarrow> \<lparr>resp = error_page e, after = s, ran = []\<rparr>
           | Inr c \<Rightarrow>
               (case run_handler E h s r ps c of
                  Sent a s' \<Rightarrow> \<lparr>resp = a, after = s', ran = [h]\<rparr>
                | NextErr e \<Rightarrow> \<lparr>resp = error_page e, after = s, ran = [h]\<rparr>)))"
proof (induction E ls s r rule: walk.induct)
  case (1 E s r)
  show ?case by simp
next
  case (2 E h ls s r)
  show ?case by (simp add: finish_eq process_params_def)
next
  case (3 E m pat h ls s r)
  then show ?case
    by (simp add: finish_eq on_error_page split: option.split sum.split)
qed

lemmas route_simps = dispatch_def app_stack_def process_params_def
  with_collection_def param_def on_error_page request_def finish_eq

lemma param_collectionName_simps:
  "db s = None \<Longrightarrow> param_collectionName s n = Inl (Error ''Database not initialized'')"
  "db s = Some h \<Longrightarrow> checkCollectionName n = None \<Longrightarrow> param_collectionName s n = Inr (h, n)"
  "db s = Some h \<Longrightarrow> checkCollectionName n = Some e \<Longrightarrow> param_collectionName s n = Inl e"
  by (simp_all add: param_collectionName_def)

lemma param_collectionName_InrD:
  "param_collectionName s n = Inr c \<Longrightarrow> db s = Some (fst c) \<and> snd c = n \<and> checkCollectionName n = None"
  by (auto simp: param_collectionName_def split: option.splits)

lemma dispatch_root:
  "dispatch E s (request GET [] q b) = finish [] s Root (root_handler s)"
  by (simp add: route_simps)

lemma dispatch_list:
  "n \<noteq> [] \<Longrightarrow> dispatch E s (request GET [''collections'', n] q b) =
     (case param_collectionName s n of
        Inl e \<Rightarrow> \<lparr>resp = error_page e, after = s, ran = []\<rparr>
      | Inr c \<Rightarrow> finish [] s ListAll (list_handler s (fst c) (snd c)))"
  by (simp add: route_simps split: sum.split prod.split)

lemma dispatch_get:
  "n \<noteq> [] \<Longrightarrow> i \<noteq> [] \<Longrightarrow> dispatch E s (request GET [''collections'', n, i] q b) =
     (case param_collectionName s n of
        Inl e \<Rightarrow> \<lparr>resp = error_page e, after = s, ran = []\<rparr>
      | Inr c \<Rightarrow> finish [] s GetById (get_handler s (fst c) (snd c) i))"
  by (simp add: route_simps split: sum.split prod.split)

lemma dispatch_insert:
  "n \<noteq> [] \<Longrightarrow> dispatch E s (request POST [''collections'', n] q b) =
     (case param_collectionName s n of
        Inl e \<Rightarrow> \<lparr>resp = error_page e, after = s, ran = []\<rparr>
      | Inr c \<Rightarrow> finish [] s Insert (insert_handler s (fst c) (snd c) b))"
  by (simp add: route_simps split: sum.split prod.split)

lemma dispatch_delete:
  "n \<noteq> [] \<Longrightarrow> i \<noteq> [] \<Longrightarrow> dispatch E s (request DELETE [''collections'', n, i] q b) =
     (case param_collectionName s n of
        Inl e \<Rightarrow> \<lparr>resp = error_page e, after = s, ran = []\<rparr>
      | Inr c \<Rightarrow> finish [] s Delete (delete_handler s (fst c) (snd c) i))"
  by (simp add: route_simps split: sum.split prod.split)

lemma dispatch_update:
  "n \<noteq> [] \<Longrightarrow> i \<noteq> [] \<Longrightarrow> dispatch E s (request PUT [''collections'', n, i] q b) =
     (case param_collectionName s n of
        Inl e \<Rightarrow> \<lparr>resp = error_page e, after = s, ran = []\<rparr>
      | Inr c \<Rightarrow> finish [] s Update (update_handler E s (fst c) (snd c) i b))"
  by (simp add: route_simps split: sum.split prod.split)

lemma dispatch_sorted:
  "n \<noteq> [] \<Longrightarrow> m \<noteq> [] \<Longrightarrow> f \<noteq> [] \<Longrightarrow> d \<noteq> [] \<Longrightarrow>
   dispatch E s (request GET [''collections'', n, m, f, d] q b) =
     (case param_collectionName s n of
        Inl e \<Rightarrow> \<lparr>resp = error_page e, after = s, ran = []\<rparr>
      | Inr c \<Rightarrow> finish [] s SortedList (sorted_handler E s (fst c) (snd c) m f d))"
  by (simp add: route_simps split: sum.split prod.split)

lemma dispatch_search:
  "dispatch E s (request GET [''search''] q b) = finish [] s Search (search_handler E s q)"
  by (simp add: route_simps)

subsection \<open>The calls of the store\<close>



lemma find_last:
  "\<not> list_ex P xs \<Longrightarrow> P y \<Longrightarrow> find P (xs @ [y]) = Some y"
  by (induction xs) simp_all







lemma outage_fails:
  "outage h = Some e \<Longrightarrow> find_all h n = Inl e"
  "outage h = Some e \<Longrightarrow> findOne h n x = Inl e"
  "outage h = Some e \<Longrightarrow> insertOne h n b = Inl e"
  "outage h = Some e \<Longrightarrow> deleteOne h n x = Inl e"
  "outage h = Some e \<Longrightarrow> updateOne E h n x b = Inl e"
  "outage h = Some e \<Longrightarrow> find_sorted E h n l f dir = Inl e"
  by (simp_all add: find_all_def findOne_def insertOne_def deleteOne_def updateOne_def
        find_sorted_def)

lemma insertOne_appends:
  "insertOne h n d = Inr (v, h') \<Longrightarrow>
     colls h' n = colls h n @ [AList.update ''_id'' v d]
     \<and> (\<forall>m. m \<noteq> n \<longrightarrow> colls h' m = colls h m)
     \<and> \<not> list_ex (has_id v) (colls h n) \<and> outage h' = None"
  by (auto simp: insertOne_def Let_def split: option.splits if_splits)



subsection \<open>Generated identifiers\<close>

text \<open>A generated identifier is read back from its hexadecimal form.\<close>

lemma hex_table: "list_all (\<lambda>c. is_hex c \<and> lower c = c \<and> is_ascii c) ''0123456789abcdef''"
  by code_simp

lemma hex_digit_ok:
  "is_hex (hex_digit n) \<and> lower (hex_digit n) = hex_digit n \<and> is_ascii (hex_digit n)"
proof -
  from hex_table have "\<forall>k<length ''0123456789abcdef''.
      is_hex (''0123456789abcdef'' ! k) \<and> lower (''0123456789abcdef'' ! k) = ''0123456789abcdef'' ! k
      \<and> is_ascii (''0123456789abcdef'' ! k)"
    by (simp only: list_all_length)
  moreover have "n mod 16 < length ''0123456789abcdef''" by simp
  ultimately show ?thesis unfolding hex_digit_def by blast
qed

lemma hex_digits_props:
  "length (hex_digits k n) = k \<and> list_all is_hex (hex_digits k n)
   \<and> map lower (hex_digits k n) = hex_digits k n \<and> list_all is_ascii (hex_digits k n)"
  by (induction k n rule: hex_digits.induct) (simp_all add: hex_digit_ok)

lemma utf16_length_ascii: "list_all is_ascii s \<Longrightarrow> utf16_length s = length s"
  by (induction s) (simp_all add: utf16_length_def is_ascii_def)

lemma ObjectId_hex24: "ObjectId (hex24 k) = Inr (Oid (hex24 k))"
  by (simp add: ObjectId_def hex24_def hex_digits_props utf16_length_ascii)

lemma hex24_not_empty: "hex24 k \<noteq> []"
  using hex_digits_props[of 24 k] by (auto simp: hex24_def)

lemma hex24_0: "hex24 0 = ''000000000000000000000000''"
  by code_simp

lemma hex24_6: "hex24 6 = ''000000000000000000000006''"
  by code_simp

subsection \<open>Patterns without syntax characters\<close>









subsection \<open>Evaluating the examples\<close>

text \<open>
  The definitions that the examples unfold, and the values of the identifiers, names and
  numbers, of the sorted lists and of the searches on the five lessons. A number read
  from text is rounded: the nearest floating-point number to one tenth is not one tenth,
  and the one nearest to 9007199254740993 is 9007199254740992. The last example is the
  search of the version that applies the regular expression to all five fields: for
  \<^verbatim>\<open>20\<close> it finds no lesson, although one lesson costs 20 and another has 20 places.
\<close>

lemma ObjectId_examples:
  "ObjectId ''000000000000000000000001'' = Inr (Oid ''000000000000000000000001'')"
  "ObjectId ''000000000000000000000002'' = Inr (Oid ''000000000000000000000002'')"
  "ObjectId ''000000000000000000000004'' = Inr (Oid ''000000000000000000000004'')"
  "ObjectId ''000000000000000000000006'' = Inr (Oid ''000000000000000000000006'')"
  "ObjectId ''000000000000000000000009'' = Inr (Oid ''000000000000000000000009'')"
  "ObjectId ''507f1f77bcf86cd799439011'' = Inr (Oid ''507f1f77bcf86cd799439011'')"
  "ObjectId ''xyz'' = Inl (BSONTypeError invalid_id_msg)"
  "ObjectId ''abc'' = Inl (BSONTypeError invalid_id_msg)"
  by code_simp+

lemma checkCollectionName_examples:
  "checkCollectionName ''lessons'' = None"
  "checkCollectionName ''orders'' = None"
  "checkCollectionName ''a$b''
     = Some (MongoError (''Collection names must not contain '' @ [CHR 0x27] @ ''$'' @ [CHR 0x27]))"
  by code_simp+

lemma plain_name_examples:
  "plain_name ''price''" "plain_name ''level''" "plain_name ''_id''" "\<not> plain_name ''spaces.left''"
  by code_simp+

lemmas example_defs = connected_def lessons_db_def five_lessons_def lesson_def has_id_def
  ObjectId_examples checkCollectionName_examples param_collectionName_def
  ok_def msg_def error_page_def

lemmas order_eval = dispatch_insert insert_handler_def insertOne_def own_id_def createPk_def
  hex24_0 finish_eq Let_def has_id_def param_collectionName_def checkCollectionName_examples
  connected_def empty_db_def ok_def short_order_def full_order_def

lemmas forwarded_eval = forwarded_def app_stack_def request_def process_params_def
  param_collectionName_def checkCollectionName_examples with_collection_def param_def


lemma parseFloat_examples:
  "parseFloat ''20'' = Fin 20"
  "parseFloat ''0.1'' = Fin (3602879701896397 / 36028797018963968)"
  "parseFloat ''9007199254740993'' = Fin 9007199254740992"
  by code_simp+






lemma regex_only_search_example:
  "search_try_regex_only no_engine (connected lessons_db) (Some ''20'') = Inr []"
  by code_simp

subsection \<open>Orders\<close>

text \<open>
  Claim C1. An order without address and telephone number is to be refused with status
  400, and a complete order is to be answered with status 201 and the new identifier.
  The application answers both with status 200 and the acknowledgement of a plain
  insert, and stores the incomplete order: the route of the order handler is registered
  after the route \<^verbatim>\<open>POST /collections/:collectionName\<close>, which takes the request.
\<close>

theorem order_without_address_is_inserted:
  "resp (dispatch no_engine (connected empty_db) (request POST [''collections'', ''orders''] None short_order))
     = \<lparr>status = 200,
        payload = Json (JObj [(''acknowledged'', JBool True),
                              (''insertedId'', JOid (Oid ''000000000000000000000000''))])\<rparr>
   \<and> map_option (\<lambda>h. colls h ''orders'')
         (db (after (dispatch no_engine (connected empty_db)
                (request POST [''collections'', ''orders''] None short_order))))
     = Some [short_order @ [(''_id'', JOid (Oid ''000000000000000000000000''))]]
   \<and> resp (dispatch no_engine (connected empty_db) (request POST [''collections'', ''orders''] None full_order))
     = \<lparr>status = 200,
        payload = Json (JObj [(''acknowledged'', JBool True),
                              (''insertedId'', JOid (Oid ''000000000000000000000000''))])\<rparr>"
  by (simp add: order_eval)

text \<open>
  The handlers that were written for the route, run on their own: the one of \<^verbatim>\<open>app.js\<close>
  accepts the incomplete order with status 201, the one of the other version refuses it
  with status 400 and accepts the complete one with status 201.
\<close>

lemma order_handlers_on_the_short_order:
  "order_handler (connected empty_db) short_order
     = Sent \<lparr>status = 201,
             payload = Json (JObj [(''msg'', JStr ''Order created successfully''),
                                   (''orderID'', JOid (Oid ''000000000000000000000000''))])\<rparr>
         (connected (empty_db\<lparr>colls := (colls empty_db)(''orders'' := [short_order @ [(''_id'', JOid (Oid ''000000000000000000000000''))]]),
                              pk_counter := 1\<rparr>))"
  "order_handler_strict (connected empty_db) short_order
     = Sent \<lparr>status = 400, payload = Json (JObj [(''error'', JStr ''Invalid order data'')])\<rparr>
         (connected empty_db)"
  "\<exists>s'. order_handler_strict (connected empty_db) full_order
     = Sent \<lparr>status = 201,
             payload = Json (JObj [(''message'', JStr ''Order created successfully''),
                                   (''_id'', JOid (Oid ''000000000000000000000000''))])\<rparr> s'"
  by (simp_all add: order_handler_def order_handler_strict_def order_eval)

text \<open>
  Claim C2. Every request \<^verbatim>\<open>POST /collections/orders\<close> is taken by the generic insert
  route, in \<^verbatim>\<open>app.js\<close> and in the other version with an order route alike: the handler
  for orders never runs. Before the connection is made the parameter callback refuses the
  request; after it, the answer is that of \<^verbatim>\<open>insertOne\<close> on the collection \<^verbatim>\<open>orders\<close>,
  and the body is appended to that collection with its identifier. No field of the
  body is examined: a body without an identifier of its own is accepted whenever the
  store is reachable and the generated identifier is new.
\<close>

theorem orders_post_takes_the_insert_route:
  "let r = dispatch E s (request POST [''collections'', ''orders''] q b) in
     CreateOrder \<notin> set (ran r)
     \<and> walk E strict_stack s (request POST [''collections'', ''orders''] q b) = r
     \<and> CreateOrderStrict \<notin> set (ran r)
     \<and> (db s = None \<longrightarrow>
          r = \<lparr>resp = error_page (Error ''Database not initialized''), after = s, ran = []\<rparr>)
     \<and> (\<forall>h. db s = Some h \<longrightarrow>
          ran r = [Insert]
          \<and> (case insertOne h ''orders'' b of
                Inl e \<Rightarrow> resp r = error_page e \<and> after r = s
              | Inr (v, h') \<Rightarrow>
                  resp r = ok (JObj [(''acknowledged'', JBool True), (''insertedId'', v)])
                  \<and> after r = s\<lparr>db := Some h'\<rparr>
                  \<and> colls h' ''orders'' = colls h ''orders'' @ [AList.update ''_id'' v b]))
     \<and> (\<forall>h. db s = Some h \<and> outage h = None \<and> own_id b = None
              \<and> \<not> list_ex (has_id (JOid (createPk h))) (colls h ''orders'') \<longrightarrow>
          insertOne h ''orders'' b
            = Inr (JOid (createPk h),
                   h\<lparr>colls := (colls h)(''orders'' := colls h ''orders'' @ [AList.update ''_id'' (JOid (createPk h)) b]),
                     pk_counter := Suc (pk_counter h)\<rparr>))"
proof -
  have d: "dispatch E s (request POST [''collections'', ''orders''] q b) =
     (case db s of
        None \<Rightarrow> \<lparr>resp = error_page (Error ''Database not initialized''), after = s, ran = []\<rparr>
      | Some h \<Rightarrow> finish [] s Insert (insert_handler s h ''orders'' b))"
    by (simp add: dispatch_insert param_collectionName_def checkCollectionName_examples
          split: option.split)
  have w: "walk E strict_stack s (request POST [''collections'', ''orders''] q b) =
     (case db s of
        None \<Rightarrow> \<lparr>resp = error_page (Error ''Database not initialized''), after = s, ran = []\<rparr>
      | Some h \<Rightarrow> finish [] s Insert (insert_handler s h ''orders'' b))"
    by (simp add: strict_stack_def process_params_def param_collectionName_def
          checkCollectionName_examples
          with_collection_def on_error_page request_def finish_eq split: option.split)
  have i: "\<And>h v h'. insertOne h ''orders'' b = Inr (v, h') \<Longrightarrow>
      colls h' ''orders'' = colls h ''orders'' @ [AList.update ''_id'' v b]"
    using insertOne_appends by blast
  have last: "\<forall>h. db s = Some h \<and> outage h = None \<and> own_id b = None
              \<and> \<not> list_ex (has_id (JOid (createPk h))) (colls h ''orders'') \<longrightarrow>
          insertOne h ''orders'' b
            = Inr (JOid (createPk h),
                   h\<lparr>colls := (colls h)(''orders'' := colls h ''orders'' @ [AList.update ''_id'' (JOid (createPk h)) b]),
                     pk_counter := Suc (pk_counter h)\<rparr>)"
    by (simp add: insertOne_def Let_def)
  show ?thesis
  proof (cases "db s")
    case None
    with last show ?thesis unfolding Let_def d w by simp
  next
    case (Some h)
    show ?thesis
    proof (cases "insertOne h ''orders'' b")
      case (Inl e)
      with Some last show ?thesis
        unfolding Let_def d w by (simp add: finish_eq insert_handler_def)
    next
      case (Inr p)
      obtain v h' where p: "p = (v, h')" by (cases p)
      with Inr have "colls h' ''orders'' = colls h ''orders'' @ [AList.update ''_id'' v b]"
        using i by simp
      with Some Inr p last show ?thesis
        unfolding Let_def d w by (simp add: finish_eq insert_handler_def)
    qed
  qed
qed

theorem orders_post_witness:
  "resp (dispatch no_engine (connected empty_db) (request POST [''collections'', ''orders''] None []))
     = ok (JObj [(''acknowledged'', JBool True), (''insertedId'', JOid (Oid ''000000000000000000000000''))])
   \<and> map_option (\<lambda>h. colls h ''orders'')
         (db (after (dispatch no_engine (connected empty_db) (request POST [''collections'', ''orders''] None []))))
     = Some [[(''_id'', JOid (Oid ''000000000000000000000000''))]]
   \<and> ran (dispatch no_engine (connected empty_db) (request POST [''collections'', ''orders''] None []))
     = [Insert]"
  using orders_post_takes_the_insert_route[of no_engine "connected empty_db" None "[]"]
  by (simp add: order_eval)

subsection \<open>Errors\<close>

text \<open>
  Claim C3, as amended. On each of the six routes that take a collection name, every
  exception is passed to \<^verbatim>\<open>next\<close> and answered with status 500 and the error page of the
  framework's final handler, the state unchanged: the exception of the parameter callback
  (the store not yet connected, a name the driver refuses) before any handler runs, and
  in the handler the exception of the identifier's constructor and the exception of the
  call of the store, which a lost connection raises in every call. Whatever is passed to
  \<^verbatim>\<open>next\<close>, the 404 middleware at the end of the stack does not run. On \<^verbatim>\<open>/search\<close> a
  failure is answered by the handler itself, with status 500 and the message of the
  error in a JSON object.
\<close>

theorem forwarded_errors_end_in_the_error_page:
  assumes "n \<noteq> []" and "i \<noteq> []" and "m \<noteq> []" and "f \<noteq> []" and "d \<noteq> []"
  shows
    "(\<forall>e. param_collectionName s n = Inl e \<longrightarrow>
        (\<forall>r \<in> set [request GET [''collections'', n] q b,
                    request GET [''collections'', n, i] q b,
                    request POST [''collections'', n] q b,
                    request DELETE [''collections'', n, i] q b,
                    request PUT [''collections'', n, i] q b,
                    request GET [''collections'', n, m, f, d] q b].
           dispatch E s r = \<lparr>resp = \<lparr>status = 500, payload = ErrorPage e\<rparr>, after = s, ran = []\<rparr>))
     \<and> (\<forall>h. param_collectionName s n = Inr (h, n) \<longrightarrow>
          (\<forall>e. find_all h n = Inl e \<longrightarrow>
             dispatch E s (request GET [''collections'', n] q b)
               = \<lparr>resp = \<lparr>status = 500, payload = ErrorPage e\<rparr>, after = s, ran = [ListAll]\<rparr>)
          \<and> (\<forall>e. insertOne h n b = Inl e \<longrightarrow>
             dispatch E s (request POST [''collections'', n] q b)
               = \<lparr>resp = \<lparr>status = 500, payload = ErrorPage e\<rparr>, after = s, ran = [Insert]\<rparr>)
          \<and> (\<forall>e. find_sorted E h n (parseInt m) f (if d = ''desc'' then - 1 else 1) = Inl e \<longrightarrow>
             dispatch E s (request GET [''collections'', n, m, f, d] q b)
               = \<lparr>resp = \<lparr>status = 500, payload = ErrorPage e\<rparr>, after = s, ran = [SortedList]\<rparr>)
          \<and> (\<forall>e. ObjectId i = Inl e \<longrightarrow>
             dispatch E s (request GET [''collections'', n, i] q b)
               = \<lparr>resp = \<lparr>status = 500, payload = ErrorPage e\<rparr>, after = s, ran = [GetById]\<rparr>
             \<and> dispatch E s (request DELETE [''collections'', n, i] q b)
               = \<lparr>resp = \<lparr>status = 500, payload = ErrorPage e\<rparr>, after = s, ran = [Delete]\<rparr>
             \<and> dispatch E s (request PUT [''collections'', n, i] q b)
               = \<lparr>resp = \<lparr>status = 500, payload = ErrorPage e\<rparr>, after = s, ran = [Update]\<rparr>)
          \<and> (\<forall>x e. ObjectId i = Inr x \<and> findOne h n x = Inl e \<longrightarrow>
             dispatch E s (request GET [''collections'', n, i] q b)
               = \<lparr>resp = \<lparr>status = 500, payload = ErrorPage e\<rparr>, after = s, ran = [GetById]\<rparr>)
          \<and> (\<forall>x e. ObjectId i = Inr x \<and> deleteOne h n x = Inl e \<longrightarrow>
             dispatch E s (request DELETE [''collections'', n, i] q b)
               = \<lparr>resp = \<lparr>status = 500, payload = ErrorPage e\<rparr>, after = s, ran = [Delete]\<rparr>)
          \<and> (\<forall>x e. ObjectId i = Inr x \<and> updateOne E h n x b = Inl e \<longrightarrow>
             dispatch E s (request PUT [''collections'', n, i] q b)
               = \<lparr>resp = \<lparr>status = 500, payload = ErrorPage e\<rparr>, after = s, ran = [Update]\<rparr>))
     \<and> (\<forall>h x l dir e. outage h = Some e \<longrightarrow>
          find_all h n = Inl e \<and> insertOne h n b = Inl e \<and> find_sorted E h n l f dir = Inl e
          \<and> findOne h n x = Inl e \<and> deleteOne h n x = Inl e \<and> updateOne E h n x b = Inl e)
     \<and> (\<forall>e. forwarded E s r = Some e \<longrightarrow>
          resp (dispatch E s r) = \<lparr>status = 500, payload = ErrorPage e\<rparr>
          \<and> after (dispatch E s r) = s
          \<and> NotFound \<notin> set (ran (dispatch E s r)))
     \<and> (\<forall>e. search_try E s q = Inl e \<longrightarrow>
          dispatch E s (request GET [''search''] q b)
            = \<lparr>resp = \<lparr>status = 500, payload = Json (JObj [(''error'', JStr (message e))])\<rparr>,
               after = s, ran = [Search]\<rparr>)"
proof -
  have A: "\<forall>e. param_collectionName s n = Inl e \<longrightarrow>
        (\<forall>r \<in> set [request GET [''collections'', n] q b,
                    request GET [''collections'', n, i] q b,
                    request POST [''collections'', n] q b,
                    request DELETE [''collections'', n, i] q b,
                    request PUT [''collections'', n, i] q b,
                    request GET [''collections'', n, m, f, d] q b].
           dispatch E s r = \<lparr>resp = \<lparr>status = 500, payload = ErrorPage e\<rparr>, after = s, ran = []\<rparr>)"
    using assms
    by (simp add: dispatch_list dispatch_get dispatch_insert dispatch_delete dispatch_update
          dispatch_sorted error_page_def)
  have B: "\<forall>h. param_collectionName s n = Inr (h, n) \<longrightarrow>
          (\<forall>e. find_all h n = Inl e \<longrightarrow>
             dispatch E s (request GET [''collections'', n] q b)
               = \<lparr>resp = \<lparr>status = 500, payload = ErrorPage e\<rparr>, after = s, ran = [ListAll]\<rparr>)
          \<and> (\<forall>e. insertOne h n b = Inl e \<longrightarrow>
             dispatch E s (request POST [''collections'', n] q b)
               = \<lparr>resp = \<lparr>status = 500, payload = ErrorPage e\<rparr>, after = s, ran = [Insert]\<rparr>)
          \<and> (\<forall>e. find_sorted E h n (parseInt m) f (if d = ''desc'' then - 1 else 1) = Inl e \<longrightarrow>
             dispatch E s (request GET [''collections'', n, m, f, d] q b)
               = \<lparr>resp = \<lparr>status = 500, payload = ErrorPage e\<rparr>, after = s, ran = [SortedList]\<rparr>)
          \<and> (\<forall>e. ObjectId i = Inl e \<longrightarrow>
             dispatch E s (request GET [''collections'', n, i] q b)
               = \<lparr>resp = \<lparr>status = 500, payload = ErrorPage e\<rparr>, after = s, ran = [GetById]\<rparr>
             \<and> dispatch E s (request DELETE [''collections'', n, i] q b)
               = \<lparr>resp = \<lparr>status = 500, payload = ErrorPage e\<rparr>, after = s, ran = [Delete]\<rparr>
             \<and> dispatch E s (request PUT [''collections'', n, i] q b)
               = \<lparr>resp = \<lparr>status = 500, payload = ErrorPage e\<rparr>, after = s, ran = [Update]\<rparr>)
          \<and> (\<forall>x e. ObjectId i = Inr x \<and> findOne h n x = Inl e \<longrightarrow>
             dispatch E s (request GET [''collections'', n, i] q b)
               = \<lparr>resp = \<lparr>status = 500, payload = ErrorPage e\<rparr>, after = s, ran = [GetById]\<rparr>)
          \<and> (\<forall>x e. ObjectId i = Inr x \<and> deleteOne h n x = Inl e \<longrightarrow>
             dispatch E s (request DELETE [''collections'', n, i] q b)
               = \<lparr>resp = \<lparr>status = 500, payload = ErrorPage e\<rparr>, after = s, ran = [Delete]\<rparr>)
          \<and> (\<forall>x e. ObjectId i = Inr x \<and> updateOne E h n x b = Inl e \<longrightarrow>
             dispatch E s (request PUT [''collections'', n, i] q b)
               = \<lparr>resp = \<lparr>status = 500, payload = ErrorPage e\<rparr>, after = s, ran = [Update]\<rparr>)"
  proof (intro allI impI)
    fix h assume p: "param_collectionName s n = Inr (h, n)"
    have 1: "\<forall>e. find_all h n = Inl e \<longrightarrow>
             dispatch E s (request GET [''collections'', n] q b)
               = \<lparr>resp = \<lparr>status = 500, payload = ErrorPage e\<rparr>, after = s, ran = [ListAll]\<rparr>"
      using p assms by (simp add: dispatch_list list_handler_def finish_eq error_page_def)
    have 2: "\<forall>e. insertOne h n b = Inl e \<longrightarrow>
             dispatch E s (request POST [''collections'', n] q b)
               = \<lparr>resp = \<lparr>status = 500, payload = ErrorPage e\<rparr>, after = s, ran = [Insert]\<rparr>"
      using p assms by (simp add: dispatch_insert insert_handler_def finish_eq error_page_def)
    have 3: "\<forall>e. find_sorted E h n (parseInt m) f (if d = ''desc'' then - 1 else 1) = Inl e \<longrightarrow>
             dispatch E s (request GET [''collections'', n, m, f, d] q b)
               = \<lparr>resp = \<lparr>status = 500, payload = ErrorPage e\<rparr>, after = s, ran = [SortedList]\<rparr>"
      using p assms
      by (simp add: dispatch_sorted sorted_handler_def Let_def finish_eq error_page_def)
    have 4: "\<forall>e. ObjectId i = Inl e \<longrightarrow>
             dispatch E s (request GET [''collections'', n, i] q b)
               = \<lparr>resp = \<lparr>status = 500, payload = ErrorPage e\<rparr>, after = s, ran = [GetById]\<rparr>
             \<and> dispatch E s (request DELETE [''collections'', n, i] q b)
               = \<lparr>resp = \<lparr>status = 500, payload = ErrorPage e\<rparr>, after = s, ran = [Delete]\<rparr>
             \<and> dispatch E s (request PUT [''collections'', n, i] q b)
               = \<lparr>resp = \<lparr>status = 500, payload = ErrorPage e\<rparr>, after = s, ran = [Update]\<rparr>"
      using p assms
      by (simp add: dispatch_get dispatch_delete dispatch_update get_handler_def delete_handler_def
            update_handler_def finish_eq error_page_def)
    have 5: "\<forall>x e. ObjectId i = Inr x \<and> findOne h n x = Inl e \<longrightarrow>
             dispatch E s (request GET [''collections'', n, i] q b)
               = \<lparr>resp = \<lparr>status = 500, payload = ErrorPage e\<rparr>, after = s, ran = [GetById]\<rparr>"
      using p assms by (simp add: dispatch_get get_handler_def finish_eq error_page_def)
    have 6: "\<forall>x e. ObjectId i = Inr x \<and> deleteOne h n x = Inl e \<longrightarrow>
             dispatch E s (request DELETE [''collections'', n, i] q b)
               = \<lparr>resp = \<lparr>status = 500, payload = ErrorPage e\<rparr>, after = s, ran = [Delete]\<rparr>"
      using p assms by (simp add: dispatch_delete delete_handler_def finish_eq error_page_def)
    have 7: "\<forall>x e. ObjectId i = Inr x \<and> updateOne E h n x b = Inl e \<longrightarrow>
             dispatch E s (request PUT [''collections'', n, i] q b)
               = \<lparr>resp = \<lparr>status = 500, payload = ErrorPage e\<rparr>, after = s, ran = [Update]\<rparr>"
      using p assms by (simp add: dispatch_update update_handler_def finish_eq error_page_def)
    show "(\<forall>e. find_all h n = Inl e \<longrightarrow>
             dispatch E s (request GET [''collections'', n] q b)
               = \<lparr>resp = \<lparr>status = 500, payload = ErrorPage e\<rparr>, after = s, ran = [ListAll]\<rparr>)
          \<and> (\<forall>e. insertOne h n b = Inl e \<longrightarrow>
             dispatch E s (request POST [''collections'', n] q b)
               = \<lparr>resp = \<lparr>status = 500, payload = ErrorPage e\<rparr>, after = s, ran = [Insert]\<rparr>)
          \<and> (\<forall>e. find_sorted E h n (parseInt m) f (if d = ''desc'' then - 1 else 1) = Inl e \<longrightarrow>
             dispatch E s (request GET [''collections'', n, m, f, d] q b)
               = \<lparr>resp = \<lparr>status = 500, payload = ErrorPage e\<rparr>, after = s, ran = [SortedList]\<rparr>)
          \<and> (\<forall>e. ObjectId i = Inl e \<longrightarrow>
             dispatch E s (request GET [''collections'', n, i] q b)
               = \<lparr>resp = \<lparr>status = 500, payload = ErrorPage e\<rparr>, after = s, ran = [GetById]\<rparr>
             \<and> dispatch E s (request DELETE [''collections'', n, i] q b)
               = \<lparr>resp = \<lparr>status = 500, payload = ErrorPage e\<rparr>, after = s, ran = [Delete]\<rparr>
             \<and> dispatch E s (request PUT [''collections'', n, i] q b)
               = \<lparr>resp = \<lparr>status = 500, payload = ErrorPage e\<rparr>, after = s, ran = [Update]\<rparr>)
          \<and> (\<forall>x e. ObjectId i = Inr x \<and> findOne h n x = Inl e \<longrightarrow>
             dispatch E s (request GET [''collections'', n, i] q b)
               = \<lparr>resp = \<lparr>status = 500, payload = ErrorPage e\<rparr>, after = s, ran = [GetById]\<rparr>)
          \<and> (\<forall>x e. ObjectId i = Inr x \<and> deleteOne h n x = Inl e \<longrightarrow>
             dispatch E s (request DELETE [''collections'', n, i] q b)
               = \<lparr>resp = \<lparr>status = 500, payload = ErrorPage e\<rparr>, after = s, ran = [Delete]\<rparr>)
          \<and> (\<forall>x e. ObjectId i = Inr x \<and> updateOne E h n x b = Inl e \<longrightarrow>
             dispatch E s (request PUT [''collections'', n, i] q b)
               = \<lparr>resp = \<lparr>status = 500, payload = ErrorPage e\<rparr>, after = s, ran = [Update]\<rparr>)"
      by (rule conjI[OF 1 conjI[OF 2 conjI[OF 3 conjI[OF 4 conjI[OF 5 conjI[OF 6 7]]]]]])
  qed
  have C: "\<forall>h x l dir e. outage h = Some e \<longrightarrow>
          find_all h n = Inl e \<and> insertOne h n b = Inl e \<and> find_sorted E h n l f dir = Inl e
          \<and> findOne h n x = Inl e \<and> deleteOne h n x = Inl e \<and> updateOne E h n x b = Inl e"
    by (simp add: outage_fails)
  have nf: "\<And>ps c e'. run_handler E NotFound s r ps c \<noteq> NextErr e'"
    by (simp add: not_found_handler_def)
  have D: "\<forall>e. forwarded E s r = Some e \<longrightarrow>
          resp (dispatch E s r) = \<lparr>status = 500, payload = ErrorPage e\<rparr>
          \<and> after (dispatch E s r) = s
          \<and> NotFound \<notin> set (ran (dispatch E s r))"
  proof (intro allI impI)
    fix e assume fw: "forwarded E s r = Some e"
    from fw nf have "dispatch E s r = \<lparr>resp = error_page e, after = s, ran = []\<rparr>
        \<or> (\<exists>h. h \<noteq> NotFound \<and> dispatch E s r = \<lparr>resp = error_page e, after = s, ran = [h]\<rparr>)"
      unfolding dispatch_def walk_first_match forwarded_def
      by (auto split: option.splits sum.splits outcome.splits prod.splits)
    then show "resp (dispatch E s r) = \<lparr>status = 500, payload = ErrorPage e\<rparr>
          \<and> after (dispatch E s r) = s
          \<and> NotFound \<notin> set (ran (dispatch E s r))"
      by (auto simp: error_page_def)
  qed
  have F: "\<forall>e. search_try E s q = Inl e \<longrightarrow>
          dispatch E s (request GET [''search''] q b)
            = \<lparr>resp = \<lparr>status = 500, payload = Json (JObj [(''error'', JStr (message e))])\<rparr>,
               after = s, ran = [Search]\<rparr>"
    by (simp add: dispatch_search search_handler_def finish_eq)
  show ?thesis
    by (rule conjI[OF A conjI[OF B conjI[OF C conjI[OF D F]]]])
qed

theorem forwarded_errors_witness:
  "dispatch no_engine (connected lessons_db) (request PUT [''collections'', ''lessons'', ''xyz''] None [])
     = \<lparr>resp = \<lparr>status = 500, payload = ErrorPage (BSONTypeError invalid_id_msg)\<rparr>,
        after = connected lessons_db, ran = [Update]\<rparr>
   \<and> dispatch no_engine (connected lessons_db) (request DELETE [''collections'', ''lessons'', ''xyz''] None [])
     = \<lparr>resp = \<lparr>status = 500, payload = ErrorPage (BSONTypeError invalid_id_msg)\<rparr>,
        after = connected lessons_db, ran = [Delete]\<rparr>
   \<and> dispatch no_engine (connected (lessons_db\<lparr>outage := Some (MongoError ''connection closed'')\<rparr>))
         (request GET [''collections'', ''lessons''] None [])
     = \<lparr>resp = \<lparr>status = 500, payload = ErrorPage (MongoError ''connection closed'')\<rparr>,
        after = connected (lessons_db\<lparr>outage := Some (MongoError ''connection closed'')\<rparr>),
        ran = [ListAll]\<rparr>
   \<and> dispatch no_engine (connected (lessons_db\<lparr>outage := Some (MongoError ''connection closed'')\<rparr>))
         (request GET [''collections'', ''lessons'', ''3'', ''price'', ''desc''] None [])
     = \<lparr>resp = \<lparr>status = 500, payload = ErrorPage (MongoError ''connection closed'')\<rparr>,
        after = connected (lessons_db\<lparr>outage := Some (MongoError ''connection closed'')\<rparr>),
        ran = [SortedList]\<rparr>
   \<and> dispatch no_engine (connected lessons_db) (request GET [''collections'', ''a$b''] None [])
     = \<lparr>resp = \<lparr>status = 500,
                payload = ErrorPage (MongoError (''Collection names must not contain '' @ [CHR 0x27] @ ''$'' @ [CHR 0x27]))\<rparr>,
        after = connected lessons_db, ran = []\<rparr>
   \<and> resp (dispatch no_engine (connected (lessons_db\<lparr>outage := Some (MongoError ''connection closed'')\<rparr>))
         (request GET [''search''] (Some ''math'') []))
     = \<lparr>status = 500, payload = Json (JObj [(''error'', JStr ''connection closed'')])\<rparr>"
  using forwarded_errors_end_in_the_error_page[of "''lessons''" "''xyz''" "''3''" "''price''" "''desc''"
          "connected lessons_db" None "[]" no_engine
          "request GET [''collections'', ''lessons'', ''xyz''] None []"]
        forwarded_errors_end_in_the_error_page[of "''lessons''" "''xyz''" "''3''" "''price''" "''desc''"
          "connected (lessons_db\<lparr>outage := Some (MongoError ''connection closed'')\<rparr>)" "Some ''math''" "[]"
          no_engine "request GET [''collections'', ''lessons'', ''xyz''] None []"]
        forwarded_errors_end_in_the_error_page[of "''a$b''" "''xyz''" "''3''" "''price''" "''desc''"
          "connected lessons_db" None "[]" no_engine
          "request GET [''collections'', ''lessons'', ''xyz''] None []"]
  by (simp add: example_defs dispatch_list dispatch_get dispatch_delete dispatch_update
        dispatch_sorted dispatch_search list_handler_def get_handler_def delete_handler_def
        update_handler_def sorted_handler_def search_handler_def finish_eq outage_fails
        search_try_def RegExp_i_def is_syntax_char_def find_query_def)

text \<open>
  The claim as it was stated, that such an error is answered with the plain-text 404 of
  an unmatched route, fails on a malformed identifier.
\<close>

theorem malformed_id_is_not_answered_404:
  "resp (dispatch no_engine (connected lessons_db) (request GET [''collections'', ''lessons'', ''xyz''] None []))
     = \<lparr>status = 500, payload = ErrorPage (BSONTypeError invalid_id_msg)\<rparr>
   \<and> resp (dispatch no_engine (connected lessons_db) (request GET [''collections'', ''lessons'', ''xyz''] None []))
     \<noteq> \<lparr>status = 404, payload = Text ''Error: Resource not found''\<rparr>
   \<and> ran (dispatch no_engine (connected lessons_db) (request GET [''collections'', ''lessons'', ''xyz''] None []))
     = [GetById]"
  by (simp add: dispatch_get get_handler_def finish_eq example_defs)

text \<open>
  Claim C4, as amended. Before the connection is made, every route that binds a
  collection name is refused by the parameter callback with the error
  \<^verbatim>\<open>Database not initialized\<close>: no handler runs and the state is unchanged. The root route,
  which does not use the store, answers with its welcome text.
\<close>

theorem collection_routes_refuse_before_connection:
  assumes "db s = None" and "n \<noteq> []" and "i \<noteq> []" and "m \<noteq> []" and "f \<noteq> []" and "d \<noteq> []"
  shows "(\<forall>r \<in> set [request GET [''collections'', n] q b,
                     request GET [''collections'', n, i] q b,
                     request POST [''collections'', n] q b,
                     request DELETE [''collections'', n, i] q b,
                     request PUT [''collections'', n, i] q b,
                     request GET [''collections'', n, m, f, d] q b].
            dispatch E s r
              = \<lparr>resp = \<lparr>status = 500, payload = ErrorPage (Error ''Database not initialized'')\<rparr>,
                 after = s, ran = []\<rparr>)
         \<and> resp (dispatch E s (request GET [] q b))
              = \<lparr>status = 200,
                 payload = Text ''Welcome! Please select a collection, e.g., /collections/lessons''\<rparr>"
  using assms
  by (simp add: dispatch_list dispatch_get dispatch_insert dispatch_delete dispatch_update
        dispatch_sorted dispatch_root root_handler_def finish_eq error_page_def
        param_collectionName_simps)

theorem refuse_before_connection_witness:
  "dispatch no_engine starting (request PUT [''collections'', ''lessons'', ''000000000000000000000001''] None [(''price'', JNum 1)])
     = \<lparr>resp = \<lparr>status = 500, payload = ErrorPage (Error ''Database not initialized'')\<rparr>,
        after = starting, ran = []\<rparr>
   \<and> dispatch no_engine starting (request GET [''collections'', ''lessons'', ''3'', ''price'', ''desc''] None [])
     = \<lparr>resp = \<lparr>status = 500, payload = ErrorPage (Error ''Database not initialized'')\<rparr>,
        after = starting, ran = []\<rparr>"
  using collection_routes_refuse_before_connection[of starting "''lessons''" "''000000000000000000000001''"
          "''3''" "''price''" "''desc''" None "[(''price'', JNum 1)]" no_engine]
        collection_routes_refuse_before_connection[of starting "''lessons''" "''000000000000000000000001''"
          "''3''" "''price''" "''desc''" None "[]" no_engine]
  by (simp add: starting_def)

text \<open>
  The claim as it was stated, for every route, fails on the root route, which does not
  fail at all, and on \<^verbatim>\<open>/search\<close>, which reads \<^verbatim>\<open>db.collection\<close> on the unset handle and
  reports the type error of that read.
\<close>

theorem root_and_search_before_connection:
  "resp (dispatch no_engine starting (request GET [] None []))
     = \<lparr>status = 200,
        payload = Text ''Welcome! Please select a collection, e.g., /collections/lessons''\<rparr>
   \<and> resp (dispatch no_engine starting (request GET [''search''] None []))
     = \<lparr>status = 500,
        payload = Json (JObj [(''error'', JStr (undefined_read_msg ''collection''))])\<rparr>
   \<and> undefined_read_msg ''collection'' \<noteq> ''Database not initialized''"
  by (simp add: dispatch_root dispatch_search root_handler_def search_handler_def search_try_def
        RegExp_i_def starting_def finish_eq undefined_read_msg_def)

subsection \<open>Search\<close>




subsection \<open>The sorted and limited list\<close>




subsection \<open>Reading a document by its identifier\<close>



text \<open>
  The claim as it was stated, for every name, fails on a name with a dollar sign: the
  identifier is well formed, and the response is neither a document nor the 404 but the
  error page for the exception of \<^verbatim>\<open>db.collection\<close>, with status 500.
\<close>

theorem refused_name_is_not_answered_404:
  "ObjectId ''000000000000000000000001'' = Inr (Oid ''000000000000000000000001'')
   \<and> dispatch no_engine (connected lessons_db)
        (request GET [''collections'', ''a$b'', ''000000000000000000000001''] None [])
     = \<lparr>resp = \<lparr>status = 500,
                payload = ErrorPage (MongoError (''Collection names must not contain '' @ [CHR 0x27] @ ''$'' @ [CHR 0x27]))\<rparr>,
        after = connected lessons_db, ran = []\<rparr>"
  by (simp add: dispatch_get example_defs)

subsection \<open>The reports of update and delete\<close>



text \<open>
  The claim as it was stated, for every request, fails on a malformed identifier, on a
  body that gives the identifier another value, and on a name the driver refuses: the
  response is the error page, with status 500, in place of one of the two messages, and
  the store is unchanged.
\<close>

theorem update_and_delete_may_end_in_an_error_page:
  "dispatch no_engine (connected lessons_db)
       (request PUT [''collections'', ''lessons'', ''xyz''] None [(''price'', JNum 25)])
     = \<lparr>resp = \<lparr>status = 500, payload = ErrorPage (BSONTypeError invalid_id_msg)\<rparr>,
        after = connected lessons_db, ran = [Update]\<rparr>
   \<and> dispatch no_engine (connected lessons_db)
       (request PUT [''collections'', ''lessons'', ''000000000000000000000004''] None
          [(''_id'', JStr ''000000000000000000000004''), (''price'', JNum 25)])
     = \<lparr>resp = \<lparr>status = 500, payload = ErrorPage (MongoError immutable_id_msg)\<rparr>,
        after = connected lessons_db, ran = [Update]\<rparr>
   \<and> dispatch no_engine (connected lessons_db)
       (request DELETE [''collections'', ''lessons'', ''xyz''] None [])
     = \<lparr>resp = \<lparr>status = 500, payload = ErrorPage (BSONTypeError invalid_id_msg)\<rparr>,
        after = connected lessons_db, ran = [Delete]\<rparr>
   \<and> dispatch no_engine (connected lessons_db)
       (request DELETE [''collections'', ''a$b'', ''000000000000000000000004''] None [])
     = \<lparr>resp = \<lparr>status = 500,
                payload = ErrorPage (MongoError (''Collection names must not contain '' @ [CHR 0x27] @ ''$'' @ [CHR 0x27]))\<rparr>,
        after = connected lessons_db, ran = []\<rparr>"
  by (simp add: example_defs plain_name_examples updateOne_def keeps_id_def
        dispatch_update update_handler_def dispatch_delete delete_handler_def finish_eq)

subsection \<open>An update merges the fields of the body\<close>



text \<open>
  The claim as it was stated, for every body, fails on a body that gives the identifier
  another value, as every JSON body with the key \<^verbatim>\<open>_id\<close> does: the store refuses the
  update, the response is the error page with status 500, and no field of the body is
  set. A key that is not the name of a top-level field is not set as a field either: the
  store reads it as a path or as an operator, and the update is the one of the engine.
\<close>

theorem body_with_identifier_sets_nothing:
  "dispatch no_engine (connected lessons_db)
       (request PUT [''collections'', ''lessons'', ''000000000000000000000004''] None
          [(''_id'', JStr ''000000000000000000000004''), (''price'', JNum 25)])
     = \<lparr>resp = \<lparr>status = 500, payload = ErrorPage (MongoError immutable_id_msg)\<rparr>,
        after = connected lessons_db, ran = [Update]\<rparr>
   \<and> map_of [(''_id'', JStr ''000000000000000000000004''), (''price'', JNum 25)] ''price'' = Some (JNum 25)
   \<and> find (has_id (JOid (Oid ''000000000000000000000004''))) (colls lessons_db ''lessons'')
       = Some (lesson ''000000000000000000000004'' ''Art'' ''Drawing'' ''York'' 20 10)"
  by (simp add: example_defs plain_name_examples updateOne_def keeps_id_def
        dispatch_update update_handler_def finish_eq)

lemma path_keys_are_left_to_the_engine:
  assumes "outage h = None" and "\<not> list_all plain_name (map fst b)"
  shows "updateOne E h n x b =
           (case update_paths E b x (colls h n) of
              Inl e \<Rightarrow> Inl e
            | Inr (c, ds) \<Rightarrow> Inr (c, h\<lparr>colls := (colls h)(n := ds)\<rparr>))"
  using assms by (simp add: updateOne_def)

subsection \<open>Insert, then read\<close>

text \<open>
  Claim C10, as amended. When a body without an identifier of its own (no \<^verbatim>\<open>_id\<close>, or
  \<^verbatim>\<open>_id\<close> null) is inserted with \<^verbatim>\<open>POST /collections/{name}\<close> and the insert is
  acknowledged, the acknowledged identifier is a generated one, and
  \<^verbatim>\<open>GET /collections/{name}/{id}\<close> with its hexadecimal form, on the state the insert left,
  returns a document that has that identifier and agrees with the body on every other
  field.
\<close>

theorem insert_then_get_returns_the_document:
  assumes "n \<noteq> []" and "db s = Some h" and "own_id b = None"
    and "resp (dispatch E s (request POST [''collections'', n] q b))
           = ok (JObj [(''acknowledged'', JBool True), (''insertedId'', v)])"
  shows "\<exists>x d. v = JOid x
           \<and> resp (dispatch E' (after (dispatch E s (request POST [''collections'', n] q b)))
                    (request GET [''collections'', n, toHexString x] q' b'))
               = ok (JObj d)
           \<and> map_of d ''_id'' = Some v
           \<and> (\<forall>k. k \<noteq> ''_id'' \<longrightarrow> map_of d k = map_of b k)"
proof -
  let ?x = "createPk h"
  let ?d = "AList.update ''_id'' (JOid ?x) b"
  from assms have name: "checkCollectionName n = None"
    by (auto simp add: dispatch_insert param_collectionName_def ok_def error_page_def
          split: option.splits)
  with assms have p: "param_collectionName s n = Inr (h, n)"
    by (simp add: param_collectionName_simps)
  from assms p obtain h' where ins: "insertOne h n b = Inr (v, h')"
    by (auto simp add: dispatch_insert insert_handler_def finish_eq ok_def error_page_def
          split: sum.splits prod.splits)
  with assms(3) have v: "v = JOid ?x"
    by (auto simp: insertOne_def Let_def split: option.splits if_splits)
  from insertOne_appends[OF ins] v have
    c: "colls h' n = colls h n @ [?d]" and nd: "\<not> list_ex (has_id (JOid ?x)) (colls h n)"
    and up: "outage h' = None"
    by simp_all
  have "has_id (JOid ?x) ?d" by (simp add: has_id_def update_conv')
  with nd c have f: "find (has_id (JOid ?x)) (colls h' n) = Some ?d"
    by (simp add: find_last)
  from assms p ins have a: "after (dispatch E s (request POST [''collections'', n] q b)) = s\<lparr>db := Some h'\<rparr>"
    by (simp add: dispatch_insert insert_handler_def finish_eq)
  have hx: "toHexString ?x = hex24 (pk_counter h)" by (simp add: createPk_def)
  have "resp (dispatch E' (s\<lparr>db := Some h'\<rparr>) (request GET [''collections'', n, toHexString ?x] q' b'))
          = ok (JObj ?d)"
    using assms(1) f up name
    by (simp add: hx dispatch_get hex24_not_empty get_handler_def ObjectId_hex24 findOne_def
          finish_eq createPk_def param_collectionName_simps)
  moreover have "map_of ?d ''_id'' = Some v" by (simp add: v update_conv')
  moreover have "\<forall>k. k \<noteq> ''_id'' \<longrightarrow> map_of ?d k = map_of b k" by (simp add: update_conv')
  ultimately show ?thesis using v a by metis
qed

theorem insert_then_get_witness:
  "resp (dispatch no_engine (connected lessons_db)
           (request POST [''collections'', ''lessons''] None [(''subject'', JStr ''Dance''), (''price'', JNum 30)]))
     = ok (JObj [(''acknowledged'', JBool True), (''insertedId'', JOid (Oid ''000000000000000000000006''))])
   \<and> resp (dispatch no_engine
            (after (dispatch no_engine (connected lessons_db)
               (request POST [''collections'', ''lessons''] None [(''subject'', JStr ''Dance''), (''price'', JNum 30)])))
            (request GET [''collections'', ''lessons'', ''000000000000000000000006''] None []))
     = ok (JObj [(''subject'', JStr ''Dance''), (''price'', JNum 30),
                 (''_id'', JOid (Oid ''000000000000000000000006''))])"
  using insert_then_get_returns_the_document[of "''lessons''" "connected lessons_db" lessons_db
          "[(''subject'', JStr ''Dance''), (''price'', JNum 30)]" no_engine None
          "JOid (Oid ''000000000000000000000006'')" no_engine None "[]"]
  by (simp add: example_defs dispatch_insert insert_handler_def insertOne_def own_id_def createPk_def
        hex24_6 finish_eq Let_def dispatch_get get_handler_def findOne_def)

text \<open>
  The claim as it was stated, for every body, fails on a body that brings its own
  identifier: it is stored under that value, which is not an object identifier, and the
  read route, which always converts the path segment to one, does not find it.
\<close>

theorem own_identifier_is_not_found_again:
  "resp (dispatch no_engine (connected empty_db)
           (request POST [''collections'', ''lessons''] None [(''_id'', JStr ''abc''), (''subject'', JStr ''Math'')]))
     = ok (JObj [(''acknowledged'', JBool True), (''insertedId'', JStr ''abc'')])
   \<and> resp (dispatch no_engine
            (after (dispatch no_engine (connected empty_db)
               (request POST [''collections'', ''lessons''] None [(''_id'', JStr ''abc''), (''subject'', JStr ''Math'')])))
            (request GET [''collections'', ''lessons'', ''abc''] None []))
     = \<lparr>status = 500, payload = ErrorPage (BSONTypeError invalid_id_msg)\<rparr>
   \<and> resp (dispatch no_engine (connected empty_db)
           (request POST [''collections'', ''lessons''] None
              [(''_id'', JStr ''507f1f77bcf86cd799439011''), (''subject'', JStr ''Math'')]))
     = ok (JObj [(''acknowledged'', JBool True), (''insertedId'', JStr ''507f1f77bcf86cd799439011'')])
   \<and> resp (dispatch no_engine
            (after (dispatch no_engine (connected empty_db)
               (request POST [''collections'', ''lessons''] None
                  [(''_id'', JStr ''507f1f77bcf86cd799439011''), (''subject'', JStr ''Math'')])))
            (request GET [''collections'', ''lessons'', ''507f1f77bcf86cd799439011''] None []))
     = \<lparr>status = 404, payload = Json (msg ''Document not found'')\<rparr>"
  by (simp add: connected_def empty_db_def dispatch_insert insert_handler_def insertOne_def own_id_def
        finish_eq Let_def dispatch_get get_handler_def findOne_def has_id_def ObjectId_examples
        param_collectionName_def checkCollectionName_examples error_page_def ok_def)

end
